theory Spec2Isabelle
  imports Complex_Main "HOL-Library.Char_ord" "HOL-Library.List_Lexorder" "HOL-Library.Multiset"
begin

section \<open>Agent Curated Registry: trust aggregation and the x402 payment gate\<close>

text \<open>
  A shallow embedding of the trust aggregator (\<^verbatim>\<open>api/trust.ts\<close>: \<^verbatim>\<open>getDecisionHint\<close>,
  \<^verbatim>\<open>queryTrust\<close>, \<^verbatim>\<open>queryEntityTrust\<close>, \<^verbatim>\<open>queryTopEntities\<close>), of the top-N query schema
  (\<^verbatim>\<open>api/schemas.ts\<close>) with its route handler (\<^verbatim>\<open>api/routes.ts\<close>), and of the payment
  middleware (\<^verbatim>\<open>payments/x402.ts\<close>: \<^verbatim>\<open>x402Middleware\<close> and its helpers).

  Conventions of the embedding.
  \<^item> A JavaScript \<^verbatim>\<open>number\<close> is a \<^typ>\<open>real\<close>: arithmetic is exact, where IEEE doubles
    round. The concrete inputs below that decide a rounding question are chosen so that
    doubles give the same result. The one value that rounding error decides in general,
    the score reported by \<^verbatim>\<open>queryTrust\<close>, is modelled a second time in binary64
    (\<open>queryTrustScore64\<close>).
  \<^item> The store (Prisma) is a value: the list of entities and the list of registry
    entries, each entry joined to its registry and its entity. The order of these lists
    is the order in which the database returns rows; nothing is assumed about it. Reads
    and writes of the store succeed.
  \<^item> \<^verbatim>\<open>new Date().toISOString()\<close> and \<^verbatim>\<open>uuidv4()\<close> are parameters (\<open>now\<close>, \<open>rid\<close>).
  \<^item> A raised exception is a value of the result type.
\<close>

subsection \<open>Data model\<close>

record entity =
  ent_id :: string
  entityType :: string
  address :: string
  chain :: string
  displayName :: "string option"

record registry =
  slug :: string
  reg_context :: string

record registry_entry =
  entry_id :: string
  score :: real
  computedAt :: string
  registry :: registry
  entity :: entity

record store =
  entities :: "entity list"
  registryEntries :: "registry_entry list"

datatype hint = Allow | AllowWithLimit | Review | Deny

record provenance_item =
  prov_registry :: string
  record_id :: string
  computed_at :: string

record trust_query_response =
  entity_id :: string
  rcontext :: string
  rscore :: real
  decision_hint :: hint
  provenance :: "provenance_item list"
  generated_at :: string

subsection \<open>getDecisionHint\<close>

record thresholds =
  allow :: real
  limit :: real
  review :: real

text \<open>The own properties of the object literal \<^verbatim>\<open>thresholds\<close>, in source order.\<close>

definition thresholdsTable :: "(string \<times> thresholds) list" where
  "thresholdsTable =
    [(''copy_trading'', \<lparr>allow = 7/10, limit = 4/10, review = 2/10\<rparr>),
     (''token_analysis'', \<lparr>allow = 6/10, limit = 3/10, review = 1/10\<rparr>),
     (''kyc'', \<lparr>allow = 8/10, limit = 5/10, review = 3/10\<rparr>),
     (''rugger_check'', \<lparr>allow = 0, limit = 0, review = 3/10\<rparr>),
     (''default'', \<lparr>allow = 6/10, limit = 3/10, review = 1/10\<rparr>)]"

definition defaultThresholds :: thresholds where
  "defaultThresholds = \<lparr>allow = 6/10, limit = 3/10, review = 1/10\<rparr>"

text \<open>
  \<^verbatim>\<open>thresholds\<close> is an ordinary object, so \<^verbatim>\<open>thresholds[context]\<close> also finds the
  properties it inherits from \<^verbatim>\<open>Object.prototype\<close>. Each of them is a function (or, for
  \<^verbatim>\<open>__proto__\<close>, the prototype object): a truthy value without \<^verbatim>\<open>allow\<close>, \<^verbatim>\<open>limit\<close> or
  \<^verbatim>\<open>review\<close> property.
\<close>

definition objectPrototypeNames :: "string list" where
  "objectPrototypeNames =
    [''constructor'', ''__defineGetter__'', ''__defineSetter__'', ''hasOwnProperty'',
     ''__lookupGetter__'', ''__lookupSetter__'', ''isPrototypeOf'',
     ''propertyIsEnumerable'', ''toString'', ''valueOf'', ''__proto__'',
     ''toLocaleString'']"

datatype member = Own thresholds | Inherited

text \<open>\<^verbatim>\<open>thresholds[context]\<close>; \<open>None\<close> is \<^verbatim>\<open>undefined\<close>.\<close>

definition thresholdsAt :: "string \<Rightarrow> member option" where
  "thresholdsAt context =
    (case map_of thresholdsTable context of
       Some t \<Rightarrow> Some (Own t)
     | None \<Rightarrow> if context \<in> set objectPrototypeNames then Some Inherited else None)"

text \<open>Reading a field of \<open>t\<close>; \<open>None\<close> is \<^verbatim>\<open>undefined\<close>.\<close>

definition field :: "(thresholds \<Rightarrow> real) \<Rightarrow> member \<Rightarrow> real option" where
  "field f t = (case t of Own r \<Rightarrow> Some (f r) | Inherited \<Rightarrow> None)"

text \<open>\<^verbatim>\<open>score >= x\<close>: a comparison with \<^verbatim>\<open>undefined\<close> is false.\<close>

definition geq :: "real \<Rightarrow> real option \<Rightarrow> bool" where
  "geq s x = (case x of Some v \<Rightarrow> s \<ge> v | None \<Rightarrow> False)"

definition getDecisionHint :: "real \<Rightarrow> string \<Rightarrow> hint" where
  "getDecisionHint s context =
    (let t = (case thresholdsAt context of Some m \<Rightarrow> m | None \<Rightarrow> Own defaultThresholds)
     in if context = ''rugger_check'' then
          (if geq s (field review t) then Deny
           else if s > 0 then Review
           else Allow)
        else if geq s (field allow t) then Allow
        else if geq s (field limit t) then AllowWithLimit
        else if geq s (field review t) then Review
        else Deny)"

subsection \<open>queryTrust\<close>

text \<open>\<^verbatim>\<open>Math.round\<close>: the nearest integer, a tie going to the larger one.\<close>

definition mathRound :: "real \<Rightarrow> real" where
  "mathRound x = of_int \<lfloor>x + 1/2\<rfloor>"

record trust_query_params =
  p_entityType :: string
  p_identifier :: string
  p_context :: string

text \<open>
  \<^verbatim>\<open>prisma.entity.findFirst({where: {entityType, address, chain: 'solana'}, ...})\<close> and
  the \<^verbatim>\<open>include\<close> of the entity's entries, optionally restricted to one context.
\<close>

definition findFirstEntity :: "store \<Rightarrow> string \<Rightarrow> string \<Rightarrow> entity option" where
  "findFirstEntity st ty ident =
    find (\<lambda>e. entityType e = ty \<and> address e = ident \<and> chain e = ''solana'') (entities st)"

definition includedEntries :: "store \<Rightarrow> entity \<Rightarrow> string option \<Rightarrow> registry_entry list" where
  "includedEntries st ent c =
    filter (\<lambda>r. ent_id (entity r) = ent_id ent \<and>
                (case c of None \<Rightarrow> True | Some cx \<Rightarrow> reg_context (registry r) = cx))
      (registryEntries st)"

definition provenanceOf :: "registry_entry \<Rightarrow> provenance_item" where
  "provenanceOf entry =
    \<lparr>prov_registry = slug (registry entry), record_id = entry_id entry,
     computed_at = computedAt entry\<rparr>"

text \<open>The \<^verbatim>\<open>for (const entry of entity.registryEntries)\<close> loop with its three variables.\<close>

fun aggregateLoop ::
  "registry_entry list \<Rightarrow> real \<times> real \<times> provenance_item list
     \<Rightarrow> real \<times> real \<times> provenance_item list" where
  "aggregateLoop [] acc = acc"
| "aggregateLoop (entry # rest) (totalScore, totalWeight, prov) =
    (let weight = 1
     in aggregateLoop rest
          (totalScore + score entry * weight, totalWeight + weight,
           prov @ [provenanceOf entry]))"

definition neutral :: "string \<Rightarrow> string \<Rightarrow> string \<Rightarrow> trust_query_response" where
  "neutral eid context now =
    \<lparr>entity_id = eid, rcontext = context, rscore = 0, decision_hint = Review,
     provenance = [], generated_at = now\<rparr>"

definition queryTrust ::
  "store \<Rightarrow> string \<Rightarrow> trust_query_params \<Rightarrow> trust_query_response option" where
  "queryTrust st now params =
    (let ty = p_entityType params; identifier = p_identifier params;
         context = p_context params;
         eid = ty @ '':'' @ identifier
     in case findFirstEntity st ty identifier of
          None \<Rightarrow> Some (neutral eid context now)
        | Some ent \<Rightarrow>
            (let entries = includedEntries st ent (Some context)
             in if length entries = 0 then Some (neutral eid context now)
                else
                  (case aggregateLoop entries (0, 0, []) of
                     (totalScore, totalWeight, prov) \<Rightarrow>
                       (let aggregatedScore =
                              (if totalWeight > 0 then totalScore / totalWeight else 0)
                        in Some \<lparr>entity_id = eid, rcontext = context,
                                 rscore = mathRound (aggregatedScore * 10000) / 10000,
                                 decision_hint = getDecisionHint aggregatedScore context,
                                 provenance = prov, generated_at = now\<rparr>))))"

subsection \<open>queryEntityTrust\<close>









subsection \<open>queryTopEntities and the top-N route\<close>

record trust_top_params =
  tp_context :: string
  tp_limit :: nat
  tp_registrySlugs :: "string list option"

record top_row =
  t_entity_id :: string
  t_display_name :: "string option"
  t_context :: string
  t_score :: real
  t_decision_hint :: hint
  t_registry :: string
  t_computed_at :: string

text \<open>
  \<^verbatim>\<open>prisma.registryEntry.findMany({where, orderBy: {score: 'desc'}, take: limit})\<close>.
  The only sort key is the score. Rows of equal score come in the order the database
  chooses: here the read order of the store, which is arbitrary (\<open>sort_key\<close> is stable).
\<close>

definition topWhere :: "string \<Rightarrow> string list option \<Rightarrow> registry_entry \<Rightarrow> bool" where
  "topWhere context registrySlugs r =
    (reg_context (registry r) = context \<and>
     (case registrySlugs of
        Some ss \<Rightarrow> if length ss > 0 then slug (registry r) \<in> set ss else True
      | None \<Rightarrow> True))"

definition findManyTop :: "store \<Rightarrow> trust_top_params \<Rightarrow> registry_entry list" where
  "findManyTop st params =
    take (tp_limit params)
      (sort_key (\<lambda>r. - score r)
         (filter (topWhere (tp_context params) (tp_registrySlugs params))
            (registryEntries st)))"

definition topRow :: "string \<Rightarrow> registry_entry \<Rightarrow> top_row" where
  "topRow context entry =
    \<lparr>t_entity_id = entityType (entity entry) @ '':'' @ address (entity entry),
     t_display_name = displayName (entity entry),
     t_context = context,
     t_score = mathRound (score entry * 10000) / 10000,
     t_decision_hint = getDecisionHint (score entry) context,
     t_registry = slug (registry entry),
     t_computed_at = computedAt entry\<rparr>"

definition queryTopEntities :: "store \<Rightarrow> trust_top_params \<Rightarrow> top_row list" where
  "queryTopEntities st params = map (topRow (tp_context params)) (findManyTop st params)"

text \<open>
  The query string of \<^verbatim>\<open>GET /v1/trust/top\<close>. \<^verbatim>\<open>z.coerce.number()\<close> applies \<^verbatim>\<open>Number\<close> to the
  raw value of \<^verbatim>\<open>limit\<close>; \<open>coerced\<close> is what comes out (or that the parameter is missing).
  \<open>q_context\<close> and \<open>q_registry_slugs\<close> are \<open>None\<close> when the parameter is missing.
\<close>

datatype coerced = Missing | NotANumber | Number real

record top_query =
  q_context :: "string option"
  q_limit :: coerced
  q_registry_slugs :: "string option"

text \<open>
  \<^verbatim>\<open>trustTopQuerySchema.safeParse\<close>: \<^verbatim>\<open>context: z.string()\<close>,
  \<^verbatim>\<open>limit: z.coerce.number().min(1).max(100).default(50)\<close>,
  \<^verbatim>\<open>registry_slugs: z.string().optional()\<close>. \<open>None\<close> is a failed parse.
\<close>

definition trustTopQuerySchema :: "top_query \<Rightarrow> (string \<times> real \<times> string option) option" where
  "trustTopQuerySchema q =
    (case q_context q of
       None \<Rightarrow> None
     | Some context \<Rightarrow>
         (case q_limit q of
            Missing \<Rightarrow> Some (context, 50, q_registry_slugs q)
          | NotANumber \<Rightarrow> None
          | Number n \<Rightarrow>
              if 1 \<le> n \<and> n \<le> 100 then Some (context, n, q_registry_slugs q) else None))"

text \<open>\<^verbatim>\<open>s.split(',')\<close>\<close>

fun split :: "char \<Rightarrow> string \<Rightarrow> string list" where
  "split c [] = [[]]"
| "split c (x # xs) =
    (if x = c then [] # split c xs
     else (case split c xs of w # ws \<Rightarrow> (x # w) # ws | [] \<Rightarrow> [[x]]))"

datatype top_response =
  Http400
| Http500
| Http200 string real nat "top_row list"

text \<open>
  The handler of the route, after the payment middleware has called \<^verbatim>\<open>next()\<close>.
  Prisma's \<^verbatim>\<open>take\<close> is an integer: it refuses any other number, and the handler's
  \<^verbatim>\<open>catch\<close> answers 500.
\<close>

definition trustTopHandler :: "store \<Rightarrow> top_query \<Rightarrow> top_response" where
  "trustTopHandler st q =
    (case trustTopQuerySchema q of
       None \<Rightarrow> Http400
     | Some (context, n, registry_slugs) \<Rightarrow>
         (let slugs = map_option (\<lambda>s. filter (\<lambda>w. w \<noteq> []) (split CHR '','' s)) registry_slugs
          in if n \<noteq> of_int \<lfloor>n\<rfloor> then Http500
             else
               (let results = queryTopEntities st
                      \<lparr>tp_context = context, tp_limit = nat \<lfloor>n\<rfloor>,
                       tp_registrySlugs = slugs\<rparr>
                in Http200 context n (length results) results)))"

subsection \<open>The x402 payment middleware\<close>

text \<open>
  The value of \<^verbatim>\<open>JSON.parse\<close>. The payment payload is whatever the caller sends, so it
  is kept untyped, as the source's \<^verbatim>\<open>any\<close>.
\<close>

datatype json =
  JNull
| JBool bool
| JNum real
| JStr string
| JArr "json list"
| JObj "(string \<times> json) list"

fun truthy :: "json \<Rightarrow> bool" where
  "truthy JNull = False"
| "truthy (JBool b) = b"
| "truthy (JNum n) = (n \<noteq> 0)"
| "truthy (JStr s) = (s \<noteq> [])"
| "truthy (JArr xs) = True"
| "truthy (JObj kvs) = True"

text \<open>
  \<^verbatim>\<open>v.network\<close>: only an object can have the property (no prototype defines
  \<^verbatim>\<open>network\<close>); \<open>None\<close> is \<^verbatim>\<open>undefined\<close>. The source reads it only from a truthy value.
  The list under \<open>JObj\<close> holds the properties of the parsed object, one pair per key.
\<close>

definition networkOf :: "json \<Rightarrow> json option" where
  "networkOf v = (case v of JObj kvs \<Rightarrow> map_of kvs ''network'' | _ \<Rightarrow> None)"

text \<open>\<^verbatim>\<open>String.prototype.includes\<close>\<close>

fun startsWith :: "string \<Rightarrow> string \<Rightarrow> bool" where
  "startsWith s [] = True"
| "startsWith [] (c # cs) = False"
| "startsWith (x # xs) (c # cs) = (x = c \<and> startsWith xs cs)"

fun includesStr :: "string \<Rightarrow> string \<Rightarrow> bool" where
  "includesStr [] needle = (needle = [])"
| "includesStr (x # xs) needle = (startsWith (x # xs) needle \<or> includesStr xs needle)"

text \<open>
  \<^verbatim>\<open>network.includes("devnet")\<close> on the value of \<^verbatim>\<open>paymentPayload.network || "solana-devnet"\<close>.
  A string and an array have the method. On anything else the call raises a
  \<^verbatim>\<open>TypeError\<close>: \<open>None\<close>.
\<close>

definition includesDevnet :: "json \<Rightarrow> bool option" where
  "includesDevnet network =
    (case network of
       JStr s \<Rightarrow> Some (includesStr s ''devnet'')
     | JArr xs \<Rightarrow> Some (JStr ''devnet'' \<in> set xs)
     | _ \<Rightarrow> None)"

datatype mode = Mock | Live

record config =
  paymentsMode :: mode
  payaiMerchantAddress :: string
  payaiNetwork :: string

definition USDC_SOLANA :: string where
  "USDC_SOLANA = ''EPjFWdd5AufqSSqeM2qN1xzybapC8G4wEGGkZwyTDt1v''"

definition USDC_SOLANA_DEVNET :: string where
  "USDC_SOLANA_DEVNET = ''4zMMC9srt5Ri5X14GAgXhaHii3GnPAEERYPJgZJDncDU''"

record request =
  protocol :: string
  host :: string
  originalUrl :: string
  path :: string
  x_payment :: "string option"
  x_payment_proof :: "string option"

record payment_log =
  requestId :: string
  endpoint :: string
  priceUsd :: real
  status :: string
  paymentRef :: "string option"

record payment_context =
  pc_requestId :: string
  paid :: bool
  pc_paymentRef :: "string option"
  payer :: "string option"

text \<open>
  The requirement record sent to the facilitator. \<open>pr_maxAmountRequired\<close> is the integer
  that the source prints with \<^verbatim>\<open>toString()\<close>.
\<close>

record payment_requirements =
  pr_scheme :: string
  pr_network :: json
  pr_maxAmountRequired :: int
  pr_resource :: string
  pr_description :: string
  pr_mimeType :: string
  pr_payTo :: string
  pr_maxTimeoutSeconds :: nat
  pr_asset :: string

record accept_entry =
  a_scheme :: string
  a_network :: string
  a_maxAmountRequired :: int
  a_asset :: string
  a_payTo :: string
  a_resource :: string
  a_description :: string
  a_mimeType :: string
  a_maxTimeoutSeconds :: nat
  a_extra_name :: string
  a_extra_priceUsd :: real
  a_extra_feePayer :: string

record x402_payment_requirements =
  x402Version :: nat
  error :: string
  accepts :: "accept_entry list"

text \<open>
  The facilitator's answers, typed as the source casts them; \<open>None\<close> when \<^verbatim>\<open>fetch\<close> or
  \<^verbatim>\<open>response.json()\<close> rejects.
\<close>

record verify_response =
  r_isValid :: "bool option"
  r_payer :: "string option"
  r_invalidReason :: "string option"

record settle_response =
  r_success :: "bool option"
  r_transaction :: "string option"
  r_errorReason :: "string option"

record verification =
  isValid :: bool
  v_payer :: "string option"
  invalidReason :: "string option"

record settlement =
  success :: bool
  transaction :: "string option"
  errorReason :: "string option"

text \<open>
  What the middleware works in: the configuration, the facilitator behind \<^verbatim>\<open>fetch\<close>, and
  \<open>decode\<close>, the base64 decoding followed by \<^verbatim>\<open>JSON.parse\<close> (\<open>None\<close> when it throws).
\<close>

record env =
  cfg :: config
  postVerify :: "json \<Rightarrow> payment_requirements \<Rightarrow> verify_response option"
  postSettle :: "json \<Rightarrow> payment_requirements \<Rightarrow> settle_response option"
  decode :: "string \<Rightarrow> json option"

definition parsePaymentHeader :: "env \<Rightarrow> string \<Rightarrow> json" where
  "parsePaymentHeader e header = (case decode e header of Some v \<Rightarrow> v | None \<Rightarrow> JNull)"

definition verifyPayment :: "env \<Rightarrow> json \<Rightarrow> payment_requirements \<Rightarrow> verification" where
  "verifyPayment e paymentPayload paymentRequirements =
    (case postVerify e paymentPayload paymentRequirements of
       Some result \<Rightarrow>
         \<lparr>isValid = (r_isValid result = Some True), v_payer = r_payer result,
          invalidReason = r_invalidReason result\<rparr>
     | None \<Rightarrow>
         \<lparr>isValid = False, v_payer = None, invalidReason = Some ''facilitator_error''\<rparr>)"

definition settlePayment :: "env \<Rightarrow> json \<Rightarrow> payment_requirements \<Rightarrow> settlement" where
  "settlePayment e paymentPayload paymentRequirements =
    (case postSettle e paymentPayload paymentRequirements of
       Some result \<Rightarrow>
         \<lparr>success = (r_success result = Some True), transaction = r_transaction result,
          errorReason = r_errorReason result\<rparr>
     | None \<Rightarrow>
         \<lparr>success = False, transaction = None, errorReason = Some ''facilitator_error''\<rparr>)"

text \<open>A header is truthy when it is present and not empty; \<open>a || b\<close> on two headers.\<close>

definition present :: "string option \<Rightarrow> bool" where
  "present h = (case h of Some s \<Rightarrow> s \<noteq> [] | None \<Rightarrow> False)"

definition orElse :: "string option \<Rightarrow> string option \<Rightarrow> string option" where
  "orElse a b = (if present a then a else b)"

record validation =
  valid :: bool
  ref :: "string option"

definition validateMockPayment :: "request \<Rightarrow> validation" where
  "validateMockPayment req =
    (let paymentProof = x_payment_proof req; paymentHeader = x_payment req
     in if present (orElse paymentProof paymentHeader)
        then \<lparr>valid = True, ref = orElse paymentProof paymentHeader\<rparr>
        else \<lparr>valid = False, ref = None\<rparr>)"

definition usdToAtomicUnits :: "real \<Rightarrow> int" where
  "usdToAtomicUnits usd = \<lfloor>usd * 1000000 + 1/2\<rfloor>"

text \<open>The \<^verbatim>\<open>X-PAYMENT-RESPONSE\<close> header, before it is serialised.\<close>

record settlement_response =
  sr_success :: bool
  sr_transaction :: "string option"
  sr_network :: "json option"
  sr_payer :: "string option"

datatype outcome =
  Next payment_context "settlement_response option"
| Status402 x402_payment_requirements
| TypeError

datatype facilitator_call =
  Verify json payment_requirements
| Settle json payment_requirements

text \<open>
  One run of the middleware: the ledger after it, the calls made to the facilitator, in
  order, and how the run ended.
\<close>

record run =
  ledger :: "payment_log list"
  calls :: "facilitator_call list"
  outcome :: outcome

text \<open>The tail of the middleware, from \<^verbatim>\<open>// No valid payment\<close> on.\<close>

definition challenge :: "config \<Rightarrow> real \<Rightarrow> request \<Rightarrow> x402_payment_requirements" where
  "challenge c price req =
    (let resourceUrl = protocol req @ ''://'' @ host req @ originalUrl req;
         network = (if payaiNetwork c \<noteq> [] then payaiNetwork c else ''solana-devnet'');
         isDevnet = includesStr network ''devnet''
     in \<lparr>x402Version = 1, error = ''X-PAYMENT header is required'',
         accepts =
           [\<lparr>a_scheme = ''exact'', a_network = network,
             a_maxAmountRequired = usdToAtomicUnits price,
             a_asset = (if isDevnet then USDC_SOLANA_DEVNET else USDC_SOLANA),
             a_payTo = (if payaiMerchantAddress c \<noteq> [] then payaiMerchantAddress c
                        else ''MERCHANT_ADDRESS_NOT_CONFIGURED''),
             a_resource = resourceUrl,
             a_description = ''ACR Trust Query - '' @ path req,
             a_mimeType = ''application/json'',
             a_maxTimeoutSeconds = 60,
             a_extra_name = ''USDC'', a_extra_priceUsd = price,
             a_extra_feePayer = ''2wKupLR9q6wXYppw8Gr2NvWxKBUqm4PPJKkQfoxHDBg4''\<rparr>]\<rparr>)"

definition noValidPayment ::
  "env \<Rightarrow> real \<Rightarrow> string \<Rightarrow> request \<Rightarrow> payment_log list \<Rightarrow> facilitator_call list \<Rightarrow> run" where
  "noValidPayment e price rid req ledger0 cs =
    \<lparr>ledger = ledger0 @
        [\<lparr>requestId = rid, endpoint = path req, priceUsd = price, status = ''pending'',
          paymentRef = None\<rparr>],
     calls = cs,
     outcome = Status402 (challenge (cfg e) price req)\<rparr>"

definition paymentRequirementsFor ::
  "env \<Rightarrow> real \<Rightarrow> request \<Rightarrow> json \<Rightarrow> bool \<Rightarrow> payment_requirements" where
  "paymentRequirementsFor e price req network isDevnet =
    \<lparr>pr_scheme = ''exact'', pr_network = network,
     pr_maxAmountRequired = usdToAtomicUnits price,
     pr_resource = protocol req @ ''://'' @ host req @ originalUrl req,
     pr_description = ''ACR Trust Query - '' @ path req,
     pr_mimeType = ''application/json'',
     pr_payTo = payaiMerchantAddress (cfg e),
     pr_maxTimeoutSeconds = 60,
     pr_asset = (if isDevnet then USDC_SOLANA_DEVNET else USDC_SOLANA)\<rparr>"

text \<open>\<^verbatim>\<open>paymentPayload.network || "solana-devnet"\<close>\<close>

definition declaredNetwork :: "json \<Rightarrow> json" where
  "declaredNetwork paymentPayload =
    (case networkOf paymentPayload of
       Some v \<Rightarrow> if truthy v then v else JStr ''solana-devnet''
     | None \<Rightarrow> JStr ''solana-devnet'')"

definition x402Middleware ::
  "env \<Rightarrow> real \<Rightarrow> string \<Rightarrow> request \<Rightarrow> payment_log list \<Rightarrow> run" where
  "x402Middleware e price rid req ledger0 =
    (if paymentsMode (cfg e) = Mock then
       (let v = validateMockPayment req
        in if valid v then
             \<lparr>ledger = ledger0 @
                [\<lparr>requestId = rid, endpoint = path req, priceUsd = price,
                  status = ''completed'', paymentRef = ref v\<rparr>],
              calls = [],
              outcome = Next \<lparr>pc_requestId = rid, paid = True, pc_paymentRef = ref v,
                              payer = None\<rparr> None\<rparr>
           else noValidPayment e price rid req ledger0 [])
     else
       (case x_payment req of
          None \<Rightarrow> noValidPayment e price rid req ledger0 []
        | Some paymentHeader \<Rightarrow>
            if paymentHeader = [] then noValidPayment e price rid req ledger0 []
            else
              (let paymentPayload = parsePaymentHeader e paymentHeader
               in if \<not> truthy paymentPayload then noValidPayment e price rid req ledger0 []
                  else
                    (let network = declaredNetwork paymentPayload
                     in case includesDevnet network of
                          None \<Rightarrow> \<lparr>ledger = ledger0, calls = [], outcome = TypeError\<rparr>
                        | Some isDevnet \<Rightarrow>
                            (let rq = paymentRequirementsFor e price req network isDevnet;
                                 vf = verifyPayment e paymentPayload rq
                             in if isValid vf then
                                  (let sm = settlePayment e paymentPayload rq
                                   in if success sm then
                                        \<lparr>ledger = ledger0 @
                                           [\<lparr>requestId = rid, endpoint = path req,
                                             priceUsd = price, status = ''completed'',
                                             paymentRef = transaction sm\<rparr>],
                                         calls = [Verify paymentPayload rq,
                                                  Settle paymentPayload rq],
                                         outcome =
                                           Next \<lparr>pc_requestId = rid, paid = True,
                                                 pc_paymentRef = transaction sm,
                                                 payer = v_payer vf\<rparr>
                                             (Some \<lparr>sr_success = True,
                                                    sr_transaction = transaction sm,
                                                    sr_network = networkOf paymentPayload,
                                                    sr_payer = v_payer vf\<rparr>)\<rparr>
                                      else noValidPayment e price rid req ledger0
                                             [Verify paymentPayload rq,
                                              Settle paymentPayload rq])
                                else noValidPayment e price rid req ledger0
                                       [Verify paymentPayload rq])))))"

subsection \<open>The score of queryTrust in binary64\<close>

text \<open>
  A JavaScript \<^verbatim>\<open>number\<close> as it is: a finite double, an infinity or \<^verbatim>\<open>NaN\<close>. \<open>Fin x\<close> is
  the double of value \<open>x\<close>; \<open>Fin 0\<close> stands for both zeros, whose sign shows in no value
  computed here.
\<close>

datatype number = Fin real | PInf | NInf | NaN

text \<open>Rounding to the nearest integer, a tie going to the even one.\<close>

definition roundHalfEven :: "real \<Rightarrow> int" where
  "roundHalfEven y =
    (let f = \<lfloor>y\<rfloor>
     in if y - of_int f < 1/2 then f
        else if y - of_int f > 1/2 then f + 1
        else if even f then f else f + 1)"

text \<open>
  The binary64 grid: 53 significant bits, the exponent of a normal number from -1022 to
  1023, subnormal numbers below. \<open>rn x\<close> is the grid point nearest to \<open>x\<close>, a tie going
  to the even significand, with no bound on the exponent from above.
\<close>

definition expo :: "real \<Rightarrow> int" where
  "expo x = max (- 1022) \<lfloor>log 2 \<bar>x\<bar>\<rfloor>"

definition ulp :: "real \<Rightarrow> real" where
  "ulp x = 2 powr (of_int (expo x) - 52)"

definition rn :: "real \<Rightarrow> real" where
  "rn x = (if x = 0 then 0 else of_int (roundHalfEven (x / ulp x)) * ulp x)"

text \<open>The result of an operation whose exact value is \<open>x\<close>: it overflows to an infinity.\<close>

definition round64 :: "real \<Rightarrow> number" where
  "round64 x =
    (let y = rn x
     in if 2 ^ 1024 \<le> y then PInf else if y \<le> - (2 ^ 1024) then NInf else Fin y)"

text \<open>\<^verbatim>\<open>x + y\<close>\<close>

fun add64 :: "number \<Rightarrow> number \<Rightarrow> number" where
  "add64 NaN y = NaN"
| "add64 x NaN = NaN"
| "add64 PInf NInf = NaN"
| "add64 NInf PInf = NaN"
| "add64 PInf y = PInf"
| "add64 x PInf = PInf"
| "add64 NInf y = NInf"
| "add64 x NInf = NInf"
| "add64 (Fin a) (Fin b) = round64 (a + b)"

text \<open>
  \<^verbatim>\<open>x * c\<close> and \<^verbatim>\<open>x / d\<close> for a finite double \<open>c > 0\<close>, \<open>d > 0\<close>: the source multiplies by
  the literals 1 and 10000, and divides by a weight it has found positive and by 10000.
\<close>

definition mul64 :: "number \<Rightarrow> real \<Rightarrow> number" where
  "mul64 x c = (case x of Fin a \<Rightarrow> round64 (a * c) | PInf \<Rightarrow> PInf | NInf \<Rightarrow> NInf | NaN \<Rightarrow> NaN)"

definition div64 :: "number \<Rightarrow> real \<Rightarrow> number" where
  "div64 x d = (case x of Fin a \<Rightarrow> round64 (a / d) | PInf \<Rightarrow> PInf | NInf \<Rightarrow> NInf | NaN \<Rightarrow> NaN)"

text \<open>\<^verbatim>\<open>Math.round\<close> is exact on a double: the result is an integer that is a double.\<close>

definition mathRound64 :: "number \<Rightarrow> number" where
  "mathRound64 x = (case x of Fin t \<Rightarrow> Fin (mathRound t) | PInf \<Rightarrow> PInf | NInf \<Rightarrow> NInf | NaN \<Rightarrow> NaN)"

text \<open>
  The loop of \<^verbatim>\<open>queryTrust\<close> again, with its two numeric variables. A stored score is a
  double: \<^verbatim>\<open>entry.score * weight\<close> is that double, and for a score written in decimal
  the double nearest to it.
\<close>

fun aggregateLoop64 :: "registry_entry list \<Rightarrow> number \<times> number \<Rightarrow> number \<times> number" where
  "aggregateLoop64 [] acc = acc"
| "aggregateLoop64 (entry # rest) (totalScore, totalWeight) =
    (let weight = 1
     in aggregateLoop64 rest
          (add64 totalScore (mul64 (Fin (score entry)) weight),
           add64 totalWeight (Fin weight)))"

text \<open>
  \<^verbatim>\<open>totalWeight > 0 ? totalScore / totalWeight : 0\<close>. A comparison with \<^verbatim>\<open>NaN\<close> is false;
  a finite number divided by infinity is 0, anything else divided by it is \<^verbatim>\<open>NaN\<close>.
\<close>

definition aggregated64 :: "number \<Rightarrow> number \<Rightarrow> number" where
  "aggregated64 totalScore totalWeight =
    (case totalWeight of
       Fin w \<Rightarrow> if w > 0 then div64 totalScore w else Fin 0
     | PInf \<Rightarrow> (case totalScore of Fin a \<Rightarrow> Fin 0 | _ \<Rightarrow> NaN)
     | NInf \<Rightarrow> Fin 0
     | NaN \<Rightarrow> Fin 0)"

text \<open>The \<^verbatim>\<open>score\<close> field of the response of \<^verbatim>\<open>queryTrust\<close>, along the same branches.\<close>

definition queryTrustScore64 :: "store \<Rightarrow> trust_query_params \<Rightarrow> number" where
  "queryTrustScore64 st params =
    (case findFirstEntity st (p_entityType params) (p_identifier params) of
       None \<Rightarrow> Fin 0
     | Some ent \<Rightarrow>
         (let entries = includedEntries st ent (Some (p_context params))
          in if length entries = 0 then Fin 0
             else
               (case aggregateLoop64 entries (Fin 0, Fin 0) of
                  (totalScore, totalWeight) \<Rightarrow>
                    (let aggregatedScore = aggregated64 totalScore totalWeight
                     in div64 (mathRound64 (mul64 aggregatedScore 10000)) 10000))))"

text \<open>
  The binary64 mean of the scores: added from left to right, starting from 0, and
  divided by their number.
\<close>

definition sum64 :: "registry_entry list \<Rightarrow> number" where
  "sum64 es = foldl (\<lambda>s e. add64 s (round64 (score e))) (Fin 0) es"

definition mean64 :: "registry_entry list \<Rightarrow> number" where
  "mean64 es = div64 (sum64 es) (real (length es))"

subsection \<open>The rounding named by the specification, and the mean\<close>

text \<open>
  Rounding half away from zero, as the specification words it, to compare with
  \<open>mathRound\<close>.
\<close>

definition roundHalfAwayFromZero :: "real \<Rightarrow> real" where
  "roundHalfAwayFromZero x = sgn x * of_int \<lfloor>\<bar>x\<bar> + 1/2\<rfloor>"

definition mean :: "registry_entry list \<Rightarrow> real" where
  "mean es = sum_list (map score es) / real (length es)"

subsection \<open>Example data\<close>

definition exampleEntity :: entity where
  "exampleEntity =
    \<lparr>ent_id = ''e1'', entityType = ''wallet'', address = ''W1'', chain = ''solana'',
     displayName = None\<rparr>"

definition exampleEntry :: "string \<Rightarrow> string \<Rightarrow> string \<Rightarrow> real \<Rightarrow> registry_entry" where
  "exampleEntry i sl cx sc =
    \<lparr>entry_id = i, score = sc, computedAt = ''2026-02-06T12:05:14.118Z'',
     registry = \<lparr>slug = sl, reg_context = cx\<rparr>, entity = exampleEntity\<rparr>"

definition exampleStore :: "registry_entry list \<Rightarrow> store" where
  "exampleStore es = \<lparr>entities = [exampleEntity], registryEntries = es\<rparr>"

definition exampleQuery :: "string \<Rightarrow> trust_query_params" where
  "exampleQuery cx = \<lparr>p_entityType = ''wallet'', p_identifier = ''W1'', p_context = cx\<rparr>"


text \<open>The same two entries of one entity and context, read in either order.\<close>

definition whalesFirst :: store where
  "whalesFirst = exampleStore
     [exampleEntry ''r1'' ''top_whales'' ''copy_trading'' (5/100),
      exampleEntry ''r2'' ''top_dex_traders'' ''copy_trading'' (10/100)]"

definition tradersFirst :: store where
  "tradersFirst = exampleStore
     [exampleEntry ''r2'' ''top_dex_traders'' ''copy_trading'' (10/100),
      exampleEntry ''r1'' ''top_whales'' ''copy_trading'' (5/100)]"

text \<open>
  Three entries of one context; the two of equal score are read with identifier
  \<open>b\<close> before identifier \<open>a\<close>.
\<close>

definition tieStore :: store where
  "tieStore = exampleStore
     [exampleEntry ''b'' ''top_whales'' ''copy_trading'' (1/2),
      exampleEntry ''a'' ''top_dex_traders'' ''copy_trading'' (1/2),
      exampleEntry ''c'' ''top_pumpfun_traders'' ''copy_trading'' (9/10)]"

definition topParams :: "nat \<Rightarrow> trust_top_params" where
  "topParams n = \<lparr>tp_context = ''copy_trading'', tp_limit = n, tp_registrySlugs = None\<rparr>"

definition topQuery :: "real \<Rightarrow> top_query" where
  "topQuery n =
    \<lparr>q_context = Some ''copy_trading'', q_limit = Number n, q_registry_slugs = None\<rparr>"

text \<open>
  A live configuration for mainnet, a request to a paid route, and three
  \<^verbatim>\<open>X-PAYMENT\<close> headers with what they decode to: \<^verbatim>\<open>{"network":1}\<close>,
  \<^verbatim>\<open>{"x402Version":1,"scheme":"exact"}\<close> and
  \<^verbatim>\<open>{"x402Version":1,"scheme":"exact","network":"solana"}\<close>. Any other header does not
  decode.
\<close>

definition liveConfig :: config where
  "liveConfig =
    \<lparr>paymentsMode = Live,
     payaiMerchantAddress = ''4zDGMwXJtXz5NHEfrAzCvUDGUGg1v5YG4LXVSrAb9JgC'',
     payaiNetwork = ''solana''\<rparr>"

definition exampleRequest :: "string option \<Rightarrow> request" where
  "exampleRequest h =
    \<lparr>protocol = ''https'', host = ''acr.example'',
     originalUrl = ''/v1/trust/top?context=copy_trading'', path = ''/trust/top'',
     x_payment = h, x_payment_proof = None\<rparr>"

definition numericNetworkHeader :: string where
  "numericNetworkHeader = ''eyJuZXR3b3JrIjoxfQ==''"

definition noNetworkHeader :: string where
  "noNetworkHeader = ''eyJ4NDAyVmVyc2lvbiI6MSwic2NoZW1lIjoiZXhhY3QifQ==''"

definition mainnetHeader :: string where
  "mainnetHeader =
    ''eyJ4NDAyVmVyc2lvbiI6MSwic2NoZW1lIjoiZXhhY3QiLCJuZXR3b3JrIjoic29sYW5hIn0=''"

definition noNetworkPayload :: json where
  "noNetworkPayload = JObj [(''x402Version'', JNum 1), (''scheme'', JStr ''exact'')]"

definition mainnetPayload :: json where
  "mainnetPayload =
    JObj [(''x402Version'', JNum 1), (''scheme'', JStr ''exact''),
          (''network'', JStr ''solana'')]"

definition exampleDecode :: "string \<Rightarrow> json option" where
  "exampleDecode =
    map_of [(numericNetworkHeader, JObj [(''network'', JNum 1)]),
            (noNetworkHeader, noNetworkPayload),
            (mainnetHeader, mainnetPayload)]"

text \<open>A facilitator that accepts and settles every payment, and one that finds it invalid.\<close>

definition acceptingEnv :: env where
  "acceptingEnv =
    \<lparr>cfg = liveConfig,
     postVerify = (\<lambda>p r. Some \<lparr>r_isValid = Some True, r_payer = Some ''payer-1'',
                                r_invalidReason = None\<rparr>),
     postSettle = (\<lambda>p r. Some \<lparr>r_success = Some True, r_transaction = Some ''tx-1'',
                                r_errorReason = None\<rparr>),
     decode = exampleDecode\<rparr>"

definition rejectingEnv :: env where
  "rejectingEnv =
    \<lparr>cfg = liveConfig,
     postVerify = (\<lambda>p r. Some \<lparr>r_isValid = Some False, r_payer = None,
                                r_invalidReason = Some ''invalid_signature''\<rparr>),
     postSettle = (\<lambda>p r. Some \<lparr>r_success = Some False, r_transaction = None,
                                r_errorReason = Some ''not_verified''\<rparr>),
     decode = exampleDecode\<rparr>"

text \<open>The requirement record built for \<open>mainnetPayload\<close> on that request at 0.05 USD.\<close>

definition mainnetRequirements :: payment_requirements where
  "mainnetRequirements =
    \<lparr>pr_scheme = ''exact'', pr_network = JStr ''solana'', pr_maxAmountRequired = 50000,
     pr_resource = ''https://acr.example/v1/trust/top?context=copy_trading'',
     pr_description = ''ACR Trust Query - /trust/top'',
     pr_mimeType = ''application/json'',
     pr_payTo = ''4zDGMwXJtXz5NHEfrAzCvUDGUGg1v5YG4LXVSrAb9JgC'',
     pr_maxTimeoutSeconds = 60, pr_asset = USDC_SOLANA\<rparr>"

text \<open>
  One entry of score 0.00015, one of score \<open>-1/32\<close>, a pair of scores 0.0005 and
  0.0006, and one entry whose score is the double nearest to 0.00035.
\<close>

definition tieEntry :: registry_entry where
  "tieEntry = exampleEntry ''r1'' ''top_whales'' ''copy_trading'' (15/100000)"

definition negativeTieEntry :: registry_entry where
  "negativeTieEntry = exampleEntry ''r1'' ''top_whales'' ''copy_trading'' (- 1/32)"

definition pairEntry1 :: registry_entry where
  "pairEntry1 = exampleEntry ''r1'' ''top_whales'' ''copy_trading'' (5/10000)"

definition pairEntry2 :: registry_entry where
  "pairEntry2 = exampleEntry ''r2'' ''top_dex_traders'' ''copy_trading'' (6/10000)"

definition doubleEntry :: registry_entry where
  "doubleEntry =
    exampleEntry ''r1'' ''top_whales'' ''copy_trading'' (6456360425798343 / 2 ^ 64)"

section \<open>Properties\<close>

lemmas example_defs =
  exampleEntity_def exampleEntry_def exampleStore_def exampleQuery_def
  findFirstEntity_def includedEntries_def

lemmas hint_defs =
  getDecisionHint_def thresholdsAt_def thresholdsTable_def objectPrototypeNames_def
  defaultThresholds_def field_def geq_def

subsection \<open>The loop computes the sum, the count and the provenance in read order\<close>

lemma aggregateLoop_eq:
  "aggregateLoop es (s, w, p) =
     (s + sum_list (map score es), w + real (length es), p @ map provenanceOf es)"
  by (induction es arbitrary: s w p) (simp_all add: algebra_simps)

lemma queryTrust_neutral_absent:
  "findFirstEntity st (p_entityType q) (p_identifier q) = None \<Longrightarrow>
   queryTrust st now q =
     Some (neutral (p_entityType q @ '':'' @ p_identifier q) (p_context q) now)"
  by (simp add: queryTrust_def)

lemma queryTrust_neutral_empty:
  "findFirstEntity st (p_entityType q) (p_identifier q) = Some ent \<Longrightarrow>
   includedEntries st ent (Some (p_context q)) = [] \<Longrightarrow>
   queryTrust st now q =
     Some (neutral (p_entityType q @ '':'' @ p_identifier q) (p_context q) now)"
  by (simp add: queryTrust_def)

lemma queryTrust_aggregated:
  assumes "findFirstEntity st (p_entityType q) (p_identifier q) = Some ent"
    and "includedEntries st ent (Some (p_context q)) = es"
    and "es \<noteq> []"
  shows "queryTrust st now q =
     Some \<lparr>entity_id = p_entityType q @ '':'' @ p_identifier q,
           rcontext = p_context q,
           rscore = mathRound (sum_list (map score es) / real (length es) * 10000) / 10000,
           decision_hint =
             getDecisionHint (sum_list (map score es) / real (length es)) (p_context q),
           provenance = map provenanceOf es, generated_at = now\<rparr>"
  using assms by (simp add: queryTrust_def aggregateLoop_eq Let_def)

lemma mathRound_half_away:
  assumes "0 \<le> x \<or> frac x \<noteq> 1/2"
  shows "mathRound x = roundHalfAwayFromZero x"
proof (cases "0 \<le> x")
  case True
  show ?thesis
  proof (cases "x = 0")
    case True
    then show ?thesis by (simp add: mathRound_def roundHalfAwayFromZero_def)
  next
    case False
    with \<open>0 \<le> x\<close> have "0 < x" by simp
    then show ?thesis by (simp add: mathRound_def roundHalfAwayFromZero_def)
  qed
next
  case False
  then have neg: "x < 0" by simp
  with assms have nh: "frac x \<noteq> 1/2" by simp
  define n where "n = \<lfloor>x + 1/2\<rfloor>"
  have lo: "of_int n \<le> x + 1/2" and hi: "x + 1/2 < of_int n + 1"
    unfolding n_def by linarith+
  have ne: "x + 1/2 \<noteq> of_int n"
  proof
    assume eq: "x + 1/2 = of_int n"
    then have x: "x = of_int (n - 1) + 1/2" by simp
    have "\<lfloor>x\<rfloor> = n - 1" by (rule floor_unique) (simp_all add: x)
    then have "frac x = 1/2" by (simp add: frac_def x)
    with nh show False by simp
  qed
  have "\<lfloor>- x + 1/2\<rfloor> = - n"
  proof (rule floor_unique)
    show "of_int (- n) \<le> - x + 1/2" using hi by simp
    show "- x + 1/2 < of_int (- n) + 1" using lo ne by simp
  qed
  then show ?thesis using neg by (simp add: mathRound_def roundHalfAwayFromZero_def n_def)
qed

subsection \<open>The neutral result\<close>

text \<open>
  Claim C5. A single-entity query whose entity is not in the store, or is there with no
  registry entry for the requested context, returns score 0, decision hint
  \<^verbatim>\<open>review\<close> and an empty provenance, whatever the identifier and the context.
\<close>

theorem queryTrust_neutral:
  assumes "findFirstEntity st (p_entityType q) (p_identifier q) = None \<or>
           (\<exists>ent. findFirstEntity st (p_entityType q) (p_identifier q) = Some ent \<and>
                  includedEntries st ent (Some (p_context q)) = [])"
  shows "\<exists>r. queryTrust st now q = Some r \<and>
             rscore r = 0 \<and> decision_hint r = Review \<and> provenance r = []"
  using assms
  by (auto simp: queryTrust_neutral_absent queryTrust_neutral_empty neutral_def)

theorem queryTrust_neutral_witness:
  "(findFirstEntity (exampleStore [exampleEntry ''r1'' ''top_whales'' ''copy_trading'' (1/2)])
      ''wallet'' ''W1'' = Some exampleEntity \<and>
    includedEntries (exampleStore [exampleEntry ''r1'' ''top_whales'' ''copy_trading'' (1/2)])
      exampleEntity (Some ''kyc'') = []) \<and>
   (\<exists>r. queryTrust (exampleStore [exampleEntry ''r1'' ''top_whales'' ''copy_trading'' (1/2)])
           ''2026-11-03T00:00:00.000Z'' (exampleQuery ''kyc'') = Some r \<and>
        rscore r = 0 \<and> decision_hint r = Review \<and> provenance r = [])"
proof -
  have h: "findFirstEntity (exampleStore [exampleEntry ''r1'' ''top_whales'' ''copy_trading'' (1/2)])
      ''wallet'' ''W1'' = Some exampleEntity \<and>
    includedEntries (exampleStore [exampleEntry ''r1'' ''top_whales'' ''copy_trading'' (1/2)])
      exampleEntity (Some ''kyc'') = []"
    by (simp add: example_defs)
  then have "findFirstEntity (exampleStore [exampleEntry ''r1'' ''top_whales'' ''copy_trading'' (1/2)])
        (p_entityType (exampleQuery ''kyc'')) (p_identifier (exampleQuery ''kyc'')) = None \<or>
      (\<exists>ent. findFirstEntity (exampleStore [exampleEntry ''r1'' ''top_whales'' ''copy_trading'' (1/2)])
          (p_entityType (exampleQuery ''kyc'')) (p_identifier (exampleQuery ''kyc'')) = Some ent \<and>
        includedEntries (exampleStore [exampleEntry ''r1'' ''top_whales'' ''copy_trading'' (1/2)])
          ent (Some (p_context (exampleQuery ''kyc''))) = [])"
    by (simp add: exampleQuery_def)
  from queryTrust_neutral [OF this] h show ?thesis by blast
qed

subsection \<open>Rounding to binary64\<close>

lemma expo_eq:
  assumes "2 powr of_int e \<le> \<bar>x\<bar>" and "\<bar>x\<bar> < 2 powr (of_int e + 1)" and "- 1022 \<le> e"
  shows "expo x = e"
proof -
  have pos: "0 < \<bar>x\<bar>" using assms(1) by (smt (verit) powr_gt_zero)
  have "of_int e \<le> log 2 \<bar>x\<bar>" using assms(1) pos by (simp add: le_log_iff)
  moreover have "log 2 \<bar>x\<bar> < of_int e + 1" using assms(2) pos by (simp add: log_less_iff)
  ultimately have "\<lfloor>log 2 \<bar>x\<bar>\<rfloor> = e" by (intro floor_unique) simp_all
  with assms(3) show ?thesis by (simp add: expo_def)
qed

lemma rn_eval:
  assumes "2 powr of_int e \<le> \<bar>x\<bar>" and "\<bar>x\<bar> < 2 powr (of_int e + 1)" and "- 1022 \<le> e"
  shows "rn x = of_int (roundHalfEven (x / 2 powr (of_int e - 52))) * 2 powr (of_int e - 52)"
proof -
  have "x \<noteq> 0" using assms(1) by (smt (verit) powr_gt_zero)
  then show ?thesis by (simp add: rn_def ulp_def expo_eq [OF assms])
qed

lemma rn_eval_neg:
  assumes "1 / 2 ^ k \<le> \<bar>x\<bar>" and "\<bar>x\<bar> < 2 / 2 ^ k" and "k \<le> 1022"
  shows "rn x = of_int (roundHalfEven (x * 2 ^ (k + 52))) / 2 ^ (k + 52)"
proof -
  have a: "(2::real) powr of_int (- int k) = 1 / 2 ^ k"
    by (simp add: powr_minus powr_realpow inverse_eq_divide)
  have "(2::real) powr (of_int (- int k) + 1) = 2 powr (1 - real k)" by simp
  also have "\<dots> = 2 powr 1 / 2 powr real k" by (rule powr_diff)
  also have "\<dots> = 2 / 2 ^ k" by (simp add: powr_realpow)
  finally have b: "(2::real) powr (of_int (- int k) + 1) = 2 / 2 ^ k" .
  have "(2::real) powr (of_int (- int k) - 52) = 2 powr (- real (k + 52))" by simp
  also have "\<dots> = 1 / 2 ^ (k + 52)"
    by (simp only: powr_minus powr_realpow zero_less_numeral inverse_eq_divide)
  finally have c: "(2::real) powr (of_int (- int k) - 52) = 1 / 2 ^ (k + 52)" .
  from rn_eval [of "- int k" x] assms show ?thesis
    unfolding a b c by simp
qed

lemma rn_eval_pos:
  assumes "2 ^ k \<le> \<bar>x\<bar>" and "\<bar>x\<bar> < 2 * 2 ^ k" and "k \<le> 52"
  shows "rn x = of_int (roundHalfEven (x * 2 ^ (52 - k))) / 2 ^ (52 - k)"
proof -
  have a: "(2::real) powr of_int (int k) = 2 ^ k" by (simp add: powr_realpow)
  have b: "(2::real) powr (of_int (int k) + 1) = 2 * 2 ^ k"
    by (simp add: powr_add powr_realpow)
  have h: "of_int (int k) - (52::real) = - real (52 - k)" using assms(3) by simp
  have "(2::real) powr (of_int (int k) - 52) = 2 powr (- real (52 - k))"
    by (simp only: h)
  also have "\<dots> = 1 / 2 ^ (52 - k)"
    by (simp only: powr_minus powr_realpow zero_less_numeral inverse_eq_divide)
  finally have c: "(2::real) powr (of_int (int k) - 52) = 1 / 2 ^ (52 - k)" .
  from rn_eval [of "int k" x] assms(1,2) show ?thesis
    unfolding a b c by simp
qed



lemma roundHalfEven_of_int: "roundHalfEven (of_int m) = m"
  by (simp add: roundHalfEven_def)

lemma rn_of_nat:
  assumes "n < 2 ^ 53"
  shows "rn (real n) = real n"
proof (cases "n = 0")
  case True
  then show ?thesis by (simp add: rn_def)
next
  case False
  then have "1 \<le> n" by simp
  with ex_power_ivl1 [of 2 n] obtain k where k: "2 ^ k \<le> n" "n < 2 ^ (k + 1)" by auto
  from k(1) assms have lt: "(2::nat) ^ k < 2 ^ 53" by linarith
  have "1 < (2::nat)" by simp
  from power_less_imp_less_exp [OF this lt] have k52: "k \<le> 52" by simp
  have lo: "2 ^ k \<le> \<bar>real n\<bar>" using k(1) by (metis abs_of_nat of_nat_le_iff of_nat_numeral of_nat_power)
  have hi: "\<bar>real n\<bar> < 2 * 2 ^ k"
  proof -
    from k(2) have "real n < real (2 ^ (k + 1))" by (simp only: of_nat_less_iff)
    then show ?thesis by simp
  qed
  have "real n * 2 ^ (52 - k) = of_int (int n * 2 ^ (52 - k))" by simp
  then have "roundHalfEven (real n * 2 ^ (52 - k)) = int n * 2 ^ (52 - k)"
    by (simp only: roundHalfEven_of_int)
  with rn_eval_pos [OF lo hi k52] show ?thesis by simp
qed

lemma round64_of_nat:
  assumes "n < 2 ^ 53"
  shows "round64 (real n) = Fin (real n)"
proof -
  have "real n < 2 ^ 53" using assms by (metis of_nat_less_iff of_nat_numeral of_nat_power)
  moreover have "(2::real) ^ 53 \<le> 2 ^ 1024" by (rule power_increasing) simp_all
  ultimately have "real n < 2 ^ 1024" by linarith
  moreover have "- ((2::real) ^ 1024) < 0" by simp
  moreover have "0 \<le> real n" by simp
  ultimately show ?thesis
    by (simp only: round64_def Let_def rn_of_nat [OF assms]) (simp add: not_le)
qed

lemma round64_fin:
  assumes "rn x = y" and "\<bar>y\<bar> < 2 ^ 1024"
  shows "round64 x = Fin y"
  using assms by (auto simp: round64_def Let_def)

subsection \<open>The aggregated score\<close>

lemma aggregateLoop64_eq:
  "j + length es < 2 ^ 53 \<Longrightarrow>
   aggregateLoop64 es (s, Fin (real j)) =
     (foldl (\<lambda>s e. add64 s (round64 (score e))) s es, Fin (real (j + length es)))"
proof (induction es arbitrary: s j)
  case Nil
  then show ?case by simp
next
  case (Cons e es)
  from Cons.prems have sj: "Suc j < 2 ^ 53" and rest: "Suc j + length es < 2 ^ 53" by simp_all
  have "add64 (Fin (real j)) (Fin 1) = round64 (real j + 1)" by simp
  also have "real j + 1 = real (Suc j)" by simp
  also have "round64 (real (Suc j)) = Fin (real (Suc j))" by (rule round64_of_nat [OF sj])
  finally have w: "add64 (Fin (real j)) (Fin 1) = Fin (real (Suc j))" .
  have m: "mul64 (Fin (score e)) 1 = round64 (score e)" by (simp add: mul64_def)
  have "aggregateLoop64 (e # es) (s, Fin (real j)) =
      aggregateLoop64 es (add64 s (round64 (score e)), Fin (real (Suc j)))"
    by (simp only: aggregateLoop64.simps Let_def m w)
  also have "\<dots> = (foldl (\<lambda>s e. add64 s (round64 (score e))) (add64 s (round64 (score e))) es,
      Fin (real (Suc j + length es)))"
    by (rule Cons.IH [OF rest])
  also have "\<dots> = (foldl (\<lambda>s e. add64 s (round64 (score e))) s (e # es),
      Fin (real (j + length (e # es))))"
    by simp
  finally show ?case .
qed

lemma queryTrustScore64_eq:
  assumes "findFirstEntity st (p_entityType q) (p_identifier q) = Some ent"
    and "includedEntries st ent (Some (p_context q)) = es"
    and "es \<noteq> []" and "length es < 2 ^ 53"
  shows "queryTrustScore64 st q = div64 (mathRound64 (mul64 (mean64 es) 10000)) 10000"
proof -
  have "aggregateLoop64 es (Fin 0, Fin (real 0)) = (sum64 es, Fin (real (0 + length es)))"
    unfolding sum64_def by (rule aggregateLoop64_eq) (use assms(4) in simp)
  then have l: "aggregateLoop64 es (Fin 0, Fin 0) = (sum64 es, Fin (real (length es)))" by simp
  have "0 < real (length es)" using assms(3) by simp
  then have a: "aggregated64 (sum64 es) (Fin (real (length es))) = mean64 es"
    by (simp add: aggregated64_def mean64_def)
  show ?thesis using assms(1,2,3) by (simp add: queryTrustScore64_def Let_def l a)
qed

text \<open>
  Claim C1, as the code has it. For a single-entity query whose entity exists with
  \<open>k \<ge> 1\<close> entries \<open>es\<close> in the requested context (fewer than \<open>2^53\<close>, so that the
  count is exact), the returned score is computed in binary64: the scores are added from
  left to right, each with the same weight 1, the sum is divided by \<open>k\<close>, the mean is
  multiplied by 10000, \<^verbatim>\<open>Math.round\<close> takes the integer nearest to that product \<open>p\<close>, a
  tie going to the larger one, and the integer is divided by 10000. This is rounding half
  away from zero of \<open>p\<close> whenever \<open>p\<close> is not negative or not half-way between two
  integers. The product \<open>p\<close> is a double, not the exact mean times 10000, so where the
  exact mean sits on a tie of the fourth decimal the double decides.
\<close>

theorem queryTrust_score:
  assumes "findFirstEntity st (p_entityType q) (p_identifier q) = Some ent"
    and "includedEntries st ent (Some (p_context q)) = es"
    and "es \<noteq> []" and "length es < 2 ^ 53"
  shows "queryTrustScore64 st q = div64 (mathRound64 (mul64 (mean64 es) 10000)) 10000 \<and>
         (\<forall>p. mul64 (mean64 es) 10000 = Fin p \<longrightarrow>
              queryTrustScore64 st q = round64 (of_int \<lfloor>p + 1/2\<rfloor> / 10000) \<and>
              (0 \<le> p \<or> frac p \<noteq> 1/2 \<longrightarrow>
                 queryTrustScore64 st q = round64 (roundHalfAwayFromZero p / 10000)))"
proof -
  note e = queryTrustScore64_eq [OF assms]
  have "queryTrustScore64 st q = round64 (of_int \<lfloor>p + 1/2\<rfloor> / 10000) \<and>
              (0 \<le> p \<or> frac p \<noteq> 1/2 \<longrightarrow>
                 queryTrustScore64 st q = round64 (roundHalfAwayFromZero p / 10000))"
    if p: "mul64 (mean64 es) 10000 = Fin p" for p
  proof -
    have v: "queryTrustScore64 st q = round64 (mathRound p / 10000)"
      by (simp add: e p mathRound64_def div64_def)
    then show ?thesis
      using mathRound_half_away [of p] by (auto simp: mathRound_def)
  qed
  with e show ?thesis by blast
qed

text \<open>
  One entry of score 0.00015: the double of 0.00015 times 10000 is just below 1.5, and
  the score is the double of 0.0001.
\<close>

lemma rn_tie_score: "rn (15/100000) = 5534023222112865 / 2 ^ 65"
  using rn_eval_neg [of 13 "15/100000"] by (simp add: roundHalfEven_def)

lemma rn_tie_double: "rn (5534023222112865 / 2 ^ 65) = 5534023222112865 / 2 ^ 65"
  using rn_eval_neg [of 13 "5534023222112865 / 2 ^ 65"] by (simp add: roundHalfEven_def)

lemma rn_tie_product: "rn (5534023222112865 / 2 ^ 65 * 10000) = 6755399441055743 / 2 ^ 52"
  using rn_eval_pos [of 0 "5534023222112865 / 2 ^ 65 * 10000"] by (simp add: roundHalfEven_def)

lemma rn_tie_result: "rn (1/10000) = 7378697629483821 / 2 ^ 66"
  using rn_eval_neg [of 14 "1/10000"] by (simp add: roundHalfEven_def)

lemma tie_mean64: "mean64 [tieEntry] = Fin (5534023222112865 / 2 ^ 65)"
proof -
  have a: "round64 (15/100000) = Fin (5534023222112865 / 2 ^ 65)"
    by (rule round64_fin [OF rn_tie_score]) simp
  have b: "round64 (5534023222112865 / 2 ^ 65) = Fin (5534023222112865 / 2 ^ 65)"
    by (rule round64_fin [OF rn_tie_double]) simp
  have "sum64 [tieEntry] = Fin (5534023222112865 / 2 ^ 65)"
    using a b by (simp add: sum64_def tieEntry_def exampleEntry_def)
  then show ?thesis using b by (simp add: mean64_def div64_def)
qed

lemma tie_product: "mul64 (mean64 [tieEntry]) 10000 = Fin (6755399441055743 / 2 ^ 52)"
proof -
  have "round64 (5534023222112865 / 2 ^ 65 * 10000) = Fin (6755399441055743 / 2 ^ 52)"
    by (rule round64_fin [OF rn_tie_product]) simp
  then show ?thesis by (simp only: tie_mean64 mul64_def number.case)
qed

lemma tie_result: "round64 (1/10000) = Fin (7378697629483821 / 2 ^ 66)"
  by (rule round64_fin [OF rn_tie_result]) simp

theorem queryTrust_score_witness:
  "(findFirstEntity (exampleStore [tieEntry]) ''wallet'' ''W1'' = Some exampleEntity \<and>
    includedEntries (exampleStore [tieEntry]) exampleEntity (Some ''copy_trading'') = [tieEntry] \<and>
    [tieEntry] \<noteq> [] \<and> length [tieEntry] < 2 ^ 53) \<and>
   mul64 (mean64 [tieEntry]) 10000 = Fin (6755399441055743 / 2 ^ 52) \<and>
   queryTrustScore64 (exampleStore [tieEntry]) (exampleQuery ''copy_trading'')
     = Fin (7378697629483821 / 2 ^ 66)"
proof -
  have f: "findFirstEntity (exampleStore [tieEntry]) (p_entityType (exampleQuery ''copy_trading''))
             (p_identifier (exampleQuery ''copy_trading'')) = Some exampleEntity"
    by (simp add: example_defs tieEntry_def)
  have i: "includedEntries (exampleStore [tieEntry]) exampleEntity
             (Some (p_context (exampleQuery ''copy_trading''))) = [tieEntry]"
    by (simp add: example_defs tieEntry_def)
  have n: "[tieEntry] \<noteq> []" by simp
  have l: "length [tieEntry] < 2 ^ 53" by simp
  have h: "(0::real) \<le> 6755399441055743 / 2 ^ 52" by simp
  have r: "roundHalfAwayFromZero (6755399441055743 / 2 ^ 52) = 1"
    by (simp add: roundHalfAwayFromZero_def)
  from queryTrust_score [OF f i n l] tie_product h
  have "queryTrustScore64 (exampleStore [tieEntry]) (exampleQuery ''copy_trading'')
      = round64 (roundHalfAwayFromZero (6755399441055743 / 2 ^ 52) / 10000)"
    by blast
  then have "queryTrustScore64 (exampleStore [tieEntry]) (exampleQuery ''copy_trading'')
      = Fin (7378697629483821 / 2 ^ 66)"
    by (simp only: r tie_result)
  with f i n l tie_product show ?thesis by (simp add: exampleQuery_def)
qed

text \<open>
  The claim as stated rounds half away from zero. One entry of score \<open>-1/32\<close>: every
  step is exact up to the product \<open>-312.5\<close>, which \<^verbatim>\<open>Math.round\<close> takes to \<open>-312\<close>; the
  score is the double of \<open>-0.0312\<close>, where rounding the mean half away from zero gives
  \<open>-0.0313\<close>.
\<close>

lemma rn_negative_score: "rn (- 1/32) = - 1/32"
  using rn_eval_neg [of 5 "- 1/32"] by (simp add: roundHalfEven_def)

lemma rn_negative_product: "rn (- 1/32 * 10000) = - 625/2"
  using rn_eval_pos [of 8 "- 1/32 * 10000"] by (simp add: roundHalfEven_def)

lemma rn_negative_result: "rn (- 312/10000) = - 4496393867966703 / 2 ^ 57"
  using rn_eval_neg [of 6 "- 312/10000"] by (simp add: roundHalfEven_def)

lemma rn_negative_claimed: "rn (- 313/10000) = - 4510805386774289 / 2 ^ 57"
  using rn_eval_neg [of 5 "- 313/10000"] by (simp add: roundHalfEven_def)

lemma negative_mean64: "mean64 [negativeTieEntry] = Fin (- 1/32)"
proof -
  have a: "round64 (- 1/32) = Fin (- 1/32)"
    by (rule round64_fin [OF rn_negative_score]) simp
  have "sum64 [negativeTieEntry] = Fin (- 1/32)"
    using a by (simp add: sum64_def negativeTieEntry_def exampleEntry_def)
  then show ?thesis using a by (simp add: mean64_def div64_def)
qed

theorem queryTrust_score_counterexample:
  "findFirstEntity (exampleStore [negativeTieEntry]) ''wallet'' ''W1'' = Some exampleEntity \<and>
   includedEntries (exampleStore [negativeTieEntry]) exampleEntity (Some ''copy_trading'')
     = [negativeTieEntry] \<and>
   mean64 [negativeTieEntry] = Fin (- 1/32) \<and>
   mean [negativeTieEntry] = - 1/32 \<and>
   queryTrustScore64 (exampleStore [negativeTieEntry]) (exampleQuery ''copy_trading'')
     = round64 (- 312/10000) \<and>
   roundHalfAwayFromZero (- 1/32 * 10000) / 10000 = - 313/10000 \<and>
   round64 (- 312/10000) = Fin (- 4496393867966703 / 2 ^ 57) \<and>
   round64 (- 313/10000) = Fin (- 4510805386774289 / 2 ^ 57)"
proof -
  have f: "findFirstEntity (exampleStore [negativeTieEntry])
             (p_entityType (exampleQuery ''copy_trading''))
             (p_identifier (exampleQuery ''copy_trading'')) = Some exampleEntity"
    by (simp add: example_defs negativeTieEntry_def)
  have i: "includedEntries (exampleStore [negativeTieEntry]) exampleEntity
             (Some (p_context (exampleQuery ''copy_trading''))) = [negativeTieEntry]"
    by (simp add: example_defs negativeTieEntry_def)
  have p: "round64 (- 1/32 * 10000) = Fin (- 625/2)"
    by (rule round64_fin [OF rn_negative_product]) simp
  have "mul64 (mean64 [negativeTieEntry]) 10000 = Fin (- 625/2)"
    by (simp only: negative_mean64 mul64_def number.case p)
  then have v: "queryTrustScore64 (exampleStore [negativeTieEntry]) (exampleQuery ''copy_trading'')
      = round64 (- 312/10000)"
    using queryTrustScore64_eq [OF f i]
    by (simp add: mathRound64_def mathRound_def div64_def)
  have m: "mean [negativeTieEntry] = - 1/32"
    by (simp add: mean_def negativeTieEntry_def exampleEntry_def)
  have s: "roundHalfAwayFromZero (- 1/32 * 10000) / 10000 = - 313/10000"
    by (simp add: roundHalfAwayFromZero_def)
  have a: "round64 (- 312/10000) = Fin (- 4496393867966703 / 2 ^ 57)"
    by (rule round64_fin [OF rn_negative_result]) simp
  have b: "round64 (- 313/10000) = Fin (- 4510805386774289 / 2 ^ 57)"
    by (rule round64_fin [OF rn_negative_claimed]) simp
  from f i negative_mean64 m v s a b show ?thesis by (simp add: exampleQuery_def)
qed

text \<open>
  Two entries of scores 0.0005 and 0.0006: their exact mean 0.00055 is a tie, the
  binary64 product is just below 5.5, and the score is the double of 0.0005.
\<close>

lemma rn_pair_first: "rn (5/10000) = 1152921504606847 / 2 ^ 61"
  using rn_eval_neg [of 11 "5/10000"] by (simp add: roundHalfEven_def)

lemma rn_pair_first_double: "rn (1152921504606847 / 2 ^ 61) = 1152921504606847 / 2 ^ 61"
  using rn_eval_neg [of 11 "1152921504606847 / 2 ^ 61"] by (simp add: roundHalfEven_def)

lemma rn_pair_second: "rn (6/10000) = 5534023222112865 / 2 ^ 63"
  using rn_eval_neg [of 11 "6/10000"] by (simp add: roundHalfEven_def)

lemma rn_pair_sum:
  "rn (1152921504606847 / 2 ^ 61 + 5534023222112865 / 2 ^ 63) = 2536427310135063 / 2 ^ 61"
  using rn_eval_neg [of 10 "1152921504606847 / 2 ^ 61 + 5534023222112865 / 2 ^ 63"]
  by (simp add: roundHalfEven_def)

lemma rn_pair_mean: "rn (2536427310135063 / 2 ^ 61 / 2) = 2536427310135063 / 2 ^ 62"
  using rn_eval_neg [of 11 "2536427310135063 / 2 ^ 61 / 2"] by (simp add: roundHalfEven_def)

lemma rn_pair_product: "rn (2536427310135063 / 2 ^ 62 * 10000) = 6192449487634431 / 2 ^ 50"
  using rn_eval_pos [of 2 "2536427310135063 / 2 ^ 62 * 10000"] by (simp add: roundHalfEven_def)

lemma pair_mean64: "mean64 [pairEntry1, pairEntry2] = Fin (2536427310135063 / 2 ^ 62)"
proof -
  have a: "round64 (5/10000) = Fin (1152921504606847 / 2 ^ 61)"
    by (rule round64_fin [OF rn_pair_first]) simp
  have a': "round64 (1152921504606847 / 2 ^ 61) = Fin (1152921504606847 / 2 ^ 61)"
    by (rule round64_fin [OF rn_pair_first_double]) simp
  have b: "round64 (6/10000) = Fin (5534023222112865 / 2 ^ 63)"
    by (rule round64_fin [OF rn_pair_second]) simp
  have c: "round64 (1152921504606847 / 2 ^ 61 + 5534023222112865 / 2 ^ 63)
      = Fin (2536427310135063 / 2 ^ 61)"
    by (rule round64_fin [OF rn_pair_sum]) simp
  have d: "round64 (2536427310135063 / 2 ^ 61 / 2) = Fin (2536427310135063 / 2 ^ 62)"
    by (rule round64_fin [OF rn_pair_mean]) simp
  have "sum64 [pairEntry1, pairEntry2] = Fin (2536427310135063 / 2 ^ 61)"
    using a a' b c by (simp add: sum64_def pairEntry1_def pairEntry2_def exampleEntry_def)
  then show ?thesis using d by (simp add: mean64_def div64_def)
qed

lemma pair_score64:
  "queryTrustScore64 (exampleStore [pairEntry1, pairEntry2]) (exampleQuery ''copy_trading'')
     = Fin (1152921504606847 / 2 ^ 61) \<and>
   round64 (5/10000) = Fin (1152921504606847 / 2 ^ 61) \<and>
   mathRound (mean [pairEntry1, pairEntry2] * 10000) / 10000 = 6/10000"
proof -
  have f: "findFirstEntity (exampleStore [pairEntry1, pairEntry2])
             (p_entityType (exampleQuery ''copy_trading''))
             (p_identifier (exampleQuery ''copy_trading'')) = Some exampleEntity"
    by (simp add: example_defs pairEntry1_def pairEntry2_def)
  have i: "includedEntries (exampleStore [pairEntry1, pairEntry2]) exampleEntity
             (Some (p_context (exampleQuery ''copy_trading''))) = [pairEntry1, pairEntry2]"
    by (simp add: example_defs pairEntry1_def pairEntry2_def)
  have p: "round64 (2536427310135063 / 2 ^ 62 * 10000) = Fin (6192449487634431 / 2 ^ 50)"
    by (rule round64_fin [OF rn_pair_product]) simp
  have a: "round64 (5/10000) = Fin (1152921504606847 / 2 ^ 61)"
    by (rule round64_fin [OF rn_pair_first]) simp
  have "mul64 (mean64 [pairEntry1, pairEntry2]) 10000 = Fin (6192449487634431 / 2 ^ 50)"
    by (simp only: pair_mean64 mul64_def number.case p)
  then have "queryTrustScore64 (exampleStore [pairEntry1, pairEntry2])
      (exampleQuery ''copy_trading'') = round64 (5/10000)"
    using queryTrustScore64_eq [OF f i]
    by (simp add: mathRound64_def mathRound_def div64_def)
  moreover have "mathRound (mean [pairEntry1, pairEntry2] * 10000) / 10000 = 6/10000"
    by (simp add: mean_def mathRound_def pairEntry1_def pairEntry2_def exampleEntry_def)
  ultimately show ?thesis using a by simp
qed

text \<open>
  One entry whose score is the double nearest to 0.00035, a little above it: the
  binary64 product is 3.5 and the score is the double of 0.0004.
\<close>

lemma rn_double_score: "rn (6456360425798343 / 2 ^ 64) = 6456360425798343 / 2 ^ 64"
  using rn_eval_neg [of 12 "6456360425798343 / 2 ^ 64"] by (simp add: roundHalfEven_def)

lemma rn_double_product: "rn (6456360425798343 / 2 ^ 64 * 10000) = 7/2"
  using rn_eval_pos [of 1 "6456360425798343 / 2 ^ 64 * 10000"] by (simp add: roundHalfEven_def)

lemma rn_double_result: "rn (4/10000) = 7378697629483821 / 2 ^ 64"
  using rn_eval_neg [of 12 "4/10000"] by (simp add: roundHalfEven_def)

lemma double_mean64: "mean64 [doubleEntry] = Fin (6456360425798343 / 2 ^ 64)"
proof -
  have a: "round64 (6456360425798343 / 2 ^ 64) = Fin (6456360425798343 / 2 ^ 64)"
    by (rule round64_fin [OF rn_double_score]) simp
  have "sum64 [doubleEntry] = Fin (6456360425798343 / 2 ^ 64)"
    using a by (simp add: sum64_def doubleEntry_def exampleEntry_def)
  then show ?thesis using a by (simp add: mean64_def div64_def)
qed

lemma double_score64:
  "queryTrustScore64 (exampleStore [doubleEntry]) (exampleQuery ''copy_trading'')
     = Fin (7378697629483821 / 2 ^ 64) \<and>
   round64 (4/10000) = Fin (7378697629483821 / 2 ^ 64)"
proof -
  have f: "findFirstEntity (exampleStore [doubleEntry])
             (p_entityType (exampleQuery ''copy_trading''))
             (p_identifier (exampleQuery ''copy_trading'')) = Some exampleEntity"
    by (simp add: example_defs doubleEntry_def)
  have i: "includedEntries (exampleStore [doubleEntry]) exampleEntity
             (Some (p_context (exampleQuery ''copy_trading''))) = [doubleEntry]"
    by (simp add: example_defs doubleEntry_def)
  have p: "round64 (6456360425798343 / 2 ^ 64 * 10000) = Fin (7/2)"
    by (rule round64_fin [OF rn_double_product]) simp
  have a: "round64 (4/10000) = Fin (7378697629483821 / 2 ^ 64)"
    by (rule round64_fin [OF rn_double_result]) simp
  have "mul64 (mean64 [doubleEntry]) 10000 = Fin (7/2)"
    by (simp only: double_mean64 mul64_def number.case p)
  then have "queryTrustScore64 (exampleStore [doubleEntry]) (exampleQuery ''copy_trading'')
      = round64 (4/10000)"
    using queryTrustScore64_eq [OF f i]
    by (simp add: mathRound64_def mathRound_def div64_def)
  then show ?thesis using a by simp
qed

subsection \<open>Grouping by context\<close>












subsection \<open>The decision hint is taken from the unrounded mean\<close>



subsection \<open>Provenance\<close>

text \<open>
  Claim C7, as the code has it. For a single-entity query with at least one matching
  entry, the provenance has one (registry slug, entry identifier, computed-at) triple per
  contributing entry, in the order in which the store returns the entries. The code does
  not sort it.
\<close>

theorem queryTrust_provenance:
  assumes "findFirstEntity st (p_entityType q) (p_identifier q) = Some ent"
    and "includedEntries st ent (Some (p_context q)) = es"
    and "es \<noteq> []"
  shows "\<exists>r. queryTrust st now q = Some r \<and>
             provenance r =
               map (\<lambda>e. \<lparr>prov_registry = slug (registry e), record_id = entry_id e,
                          computed_at = computedAt e\<rparr>) es"
  by (simp add: queryTrust_aggregated [OF assms] provenanceOf_def)

theorem queryTrust_provenance_witness:
  "(findFirstEntity whalesFirst ''wallet'' ''W1'' = Some exampleEntity \<and>
    includedEntries whalesFirst exampleEntity (Some ''copy_trading'')
      = registryEntries whalesFirst \<and> registryEntries whalesFirst \<noteq> []) \<and>
   (\<exists>r. queryTrust whalesFirst ''now'' (exampleQuery ''copy_trading'') = Some r \<and>
        provenance r =
          [\<lparr>prov_registry = ''top_whales'', record_id = ''r1'',
            computed_at = ''2026-02-06T12:05:14.118Z''\<rparr>,
           \<lparr>prov_registry = ''top_dex_traders'', record_id = ''r2'',
            computed_at = ''2026-02-06T12:05:14.118Z''\<rparr>])"
proof -
  have f: "findFirstEntity whalesFirst (p_entityType (exampleQuery ''copy_trading''))
             (p_identifier (exampleQuery ''copy_trading'')) = Some exampleEntity"
    by (simp add: whalesFirst_def example_defs)
  have i: "includedEntries whalesFirst exampleEntity
             (Some (p_context (exampleQuery ''copy_trading''))) = registryEntries whalesFirst"
    by (simp add: whalesFirst_def example_defs)
  have n: "registryEntries whalesFirst \<noteq> []"
    by (simp add: whalesFirst_def example_defs)
  from queryTrust_provenance [OF f i n, of "''now''"] f i n show ?thesis
    by (simp add: exampleQuery_def) (simp add: whalesFirst_def exampleStore_def exampleEntry_def)
qed

text \<open>
  The claim as stated asks for ascending registry slugs whatever the read order. Two
  stores with the same two entries, read in opposite orders, give opposite provenance
  lists, and one of them is not ascending.
\<close>

theorem queryTrust_provenance_counterexample:
  "map_option (map prov_registry \<circ> provenance)
     (queryTrust whalesFirst ''now'' (exampleQuery ''copy_trading''))
     = Some [''top_whales'', ''top_dex_traders''] \<and>
   \<not> sorted [''top_whales'', ''top_dex_traders''] \<and>
   set (registryEntries tradersFirst) = set (registryEntries whalesFirst) \<and>
   map_option (map prov_registry \<circ> provenance)
     (queryTrust tradersFirst ''now'' (exampleQuery ''copy_trading''))
     = Some [''top_dex_traders'', ''top_whales'']"
  by (simp add: whalesFirst_def tradersFirst_def example_defs queryTrust_def Let_def
      provenanceOf_def insert_commute)

subsection \<open>The decision-hint table\<close>

lemma getDecisionHint_rugger_check:
  "getDecisionHint s ''rugger_check'' =
     (if s \<ge> 3/10 then Deny else if s > 0 then Review else Allow)"
  by (simp add: hint_defs)

lemma getDecisionHint_standard:
  assumes "context \<noteq> ''rugger_check''" and "context \<notin> set objectPrototypeNames"
  shows "getDecisionHint s context =
     (let t = (case map_of thresholdsTable context of Some t \<Rightarrow> t | None \<Rightarrow> defaultThresholds)
      in if s \<ge> allow t then Allow
         else if s \<ge> limit t then AllowWithLimit
         else if s \<ge> review t then Review
         else Deny)"
  using assms
  by (simp add: getDecisionHint_def thresholdsAt_def field_def geq_def Let_def
      split: option.split)

lemma getDecisionHint_inherited:
  assumes "context \<in> set objectPrototypeNames"
  shows "getDecisionHint s context = Deny"
proof -
  from assms have "map_of thresholdsTable context = None"
    by (auto simp: thresholdsTable_def objectPrototypeNames_def)
  with assms have "thresholdsAt context = Some Inherited"
    by (simp add: thresholdsAt_def)
  moreover from assms have "context \<noteq> ''rugger_check''"
    by (auto simp: objectPrototypeNames_def)
  ultimately show ?thesis
    by (simp add: getDecisionHint_def field_def geq_def)
qed

text \<open>
  Claim C2. For every score and context the decision hint follows the table: in a
  standard context the score is compared with the context's \<^verbatim>\<open>allow\<close>, \<^verbatim>\<open>limit\<close> and
  \<^verbatim>\<open>review\<close> thresholds (the defaults 0.6, 0.3, 0.1 unless the context overrides them),
  each boundary closed below; \<^verbatim>\<open>rugger_check\<close> is inverted. The lemmas above prove the
  table for \<^verbatim>\<open>rugger_check\<close> and for every context that is not the name of a property
  inherited from \<^verbatim>\<open>Object.prototype\<close>. For such a name the fallback to the defaults does
  not happen: \<^verbatim>\<open>thresholds["constructor"]\<close> is a function, its thresholds are
  \<^verbatim>\<open>undefined\<close>, every comparison is false, and the score 0.9, which reaches the default
  \<^verbatim>\<open>allow\<close> threshold, gets \<^verbatim>\<open>deny\<close>.
\<close>

theorem getDecisionHint_constructor:
  "map_of thresholdsTable ''constructor'' = None \<and>
   allow defaultThresholds \<le> 9/10 \<and>
   getDecisionHint (9/10) ''constructor'' = Deny"
  by (simp add: hint_defs)

subsection \<open>Top-N\<close>

lemma findManyTop_sorted:
  "sorted_wrt (\<lambda>a b. score b \<le> score a) (findManyTop st p)"
proof -
  have "sorted (map (\<lambda>r. - score r)
          (sort_key (\<lambda>r. - score r)
             (filter (topWhere (tp_context p) (tp_registrySlugs p)) (registryEntries st))))"
    by (rule sorted_sort_key)
  then have "sorted_wrt (\<lambda>a b. score b \<le> score a)
          (sort_key (\<lambda>r. - score r)
             (filter (topWhere (tp_context p) (tp_registrySlugs p)) (registryEntries st)))"
    by (simp add: sorted_map)
  then show ?thesis
    unfolding findManyTop_def by (rule sorted_wrt_take)
qed

lemma findManyTop_subset:
  "r \<in> set (findManyTop st p) \<Longrightarrow>
     r \<in> set (registryEntries st) \<and> topWhere (tp_context p) (tp_registrySlugs p) r"
  by (auto simp: findManyTop_def dest: in_set_takeD)

lemma trustTopHandler_ok:
  assumes "q_context q = Some c" and "q_limit q = Number (real N)" and "1 \<le> N" and "N \<le> 100"
  shows "trustTopHandler st q =
     Http200 c (real N)
       (length (queryTopEntities st
          \<lparr>tp_context = c, tp_limit = N,
           tp_registrySlugs =
             map_option (\<lambda>s. filter (\<lambda>w. w \<noteq> []) (split CHR '','' s)) (q_registry_slugs q)\<rparr>))
       (queryTopEntities st
          \<lparr>tp_context = c, tp_limit = N,
           tp_registrySlugs =
             map_option (\<lambda>s. filter (\<lambda>w. w \<noteq> []) (split CHR '','' s)) (q_registry_slugs q)\<rparr>)"
  using assms by (simp add: trustTopHandler_def trustTopQuerySchema_def Let_def)

lemma trustTopHandler_rejects:
  assumes "q_limit q = Number n" and "n < 1 \<or> 100 < n"
  shows "trustTopHandler st q = Http400"
  using assms by (auto simp: trustTopHandler_def trustTopQuerySchema_def split: option.split)

lemma tie_top: "map entry_id (findManyTop tieStore (topParams 3)) = [''c'', ''b'', ''a'']"
  by (simp add: findManyTop_def tieStore_def topParams_def exampleStore_def exampleEntry_def
      topWhere_def)

text \<open>
  Claim C4, as the code has it. For a top-N query with a context and a limit \<open>N\<close>, the
  entries behind the result rows all belong to a registry of that context (and of the
  allow-list of slugs, when one is given and not empty); they are the first \<open>N\<close> of the
  matching entries in an order of descending raw score, so at most \<open>N\<close>; the rows are
  built from them one by one, in that order. The order among entries of equal score is
  the one the store returns: the code gives no second sort key. A request whose limit is
  below 1 or above 100 is answered 400 whatever the store holds, and a limit \<open>N\<close> from
  1 to 100 is answered with the rows of the query for \<open>N\<close>.
\<close>

theorem queryTopEntities_top:
  "(\<forall>r \<in> set (findManyTop st p).
      r \<in> set (registryEntries st) \<and> reg_context (registry r) = tp_context p \<and>
      (\<forall>ss. tp_registrySlugs p = Some ss \<and> ss \<noteq> [] \<longrightarrow> slug (registry r) \<in> set ss)) \<and>
   sorted_wrt (\<lambda>a b. score b \<le> score a) (findManyTop st p) \<and>
   length (findManyTop st p) \<le> tp_limit p \<and>
   (\<exists>ys. mset ys =
           mset (filter (topWhere (tp_context p) (tp_registrySlugs p)) (registryEntries st)) \<and>
         sorted_wrt (\<lambda>a b. score b \<le> score a) ys \<and>
         findManyTop st p = take (tp_limit p) ys) \<and>
   queryTopEntities st p = map (topRow (tp_context p)) (findManyTop st p) \<and>
   (q_limit q = Number n \<and> (n < 1 \<or> 100 < n) \<longrightarrow> trustTopHandler st q = Http400) \<and>
   (q_context q = Some c \<and> q_limit q = Number (real N) \<and> 1 \<le> N \<and> N \<le> 100 \<longrightarrow>
      (\<exists>slugs rows.
         rows = queryTopEntities st
                  \<lparr>tp_context = c, tp_limit = N, tp_registrySlugs = slugs\<rparr> \<and>
         trustTopHandler st q = Http200 c (real N) (length rows) rows))"
proof -
  let ?ys = "sort_key (\<lambda>r. - score r)
               (filter (topWhere (tp_context p) (tp_registrySlugs p)) (registryEntries st))"
  have members: "\<forall>r \<in> set (findManyTop st p).
      r \<in> set (registryEntries st) \<and> reg_context (registry r) = tp_context p \<and>
      (\<forall>ss. tp_registrySlugs p = Some ss \<and> ss \<noteq> [] \<longrightarrow> slug (registry r) \<in> set ss)"
    using findManyTop_subset [of _ st p] by (auto simp: topWhere_def)
  have "sorted (map (\<lambda>r. - score r) ?ys)" by (rule sorted_sort_key)
  then have "sorted_wrt (\<lambda>a b. score b \<le> score a) ?ys" by (simp add: sorted_map)
  moreover have "mset ?ys =
      mset (filter (topWhere (tp_context p) (tp_registrySlugs p)) (registryEntries st))"
    by simp
  moreover have "findManyTop st p = take (tp_limit p) ?ys" by (simp add: findManyTop_def)
  ultimately have perm: "\<exists>ys. mset ys =
           mset (filter (topWhere (tp_context p) (tp_registrySlugs p)) (registryEntries st)) \<and>
         sorted_wrt (\<lambda>a b. score b \<le> score a) ys \<and>
         findManyTop st p = take (tp_limit p) ys"
    by blast
  have len: "length (findManyTop st p) \<le> tp_limit p"
    by (simp add: findManyTop_def)
  have rows: "queryTopEntities st p = map (topRow (tp_context p)) (findManyTop st p)"
    by (simp add: queryTopEntities_def)
  have bad: "q_limit q = Number n \<and> (n < 1 \<or> 100 < n) \<longrightarrow> trustTopHandler st q = Http400"
    using trustTopHandler_rejects by blast
  have good: "q_context q = Some c \<and> q_limit q = Number (real N) \<and> 1 \<le> N \<and> N \<le> 100 \<longrightarrow>
      (\<exists>slugs rows.
         rows = queryTopEntities st
                  \<lparr>tp_context = c, tp_limit = N, tp_registrySlugs = slugs\<rparr> \<and>
         trustTopHandler st q = Http200 c (real N) (length rows) rows)"
    using trustTopHandler_ok [of q c N st] by blast
  from members findManyTop_sorted [of st p] len perm rows bad good show ?thesis
    by (intro conjI)
qed

theorem queryTopEntities_top_witness:
  "(\<exists>r \<in> set (findManyTop tieStore (topParams 3)).
      r \<in> set (registryEntries tieStore) \<and> reg_context (registry r) = ''copy_trading'') \<and>
   trustTopHandler tieStore (topQuery 0) = Http400 \<and>
   trustTopHandler tieStore (topQuery 101) = Http400 \<and>
   (\<exists>slugs rows.
      rows = queryTopEntities tieStore
               \<lparr>tp_context = ''copy_trading'', tp_limit = 3, tp_registrySlugs = slugs\<rparr> \<and>
      trustTopHandler tieStore (topQuery 3) = Http200 ''copy_trading'' 3 (length rows) rows)"
proof -
  have ne: "set (findManyTop tieStore (topParams 3)) \<noteq> {}"
    using tie_top by fastforce
  from queryTopEntities_top [where st = tieStore and p = "topParams 3"]
  have "\<forall>r \<in> set (findManyTop tieStore (topParams 3)).
      r \<in> set (registryEntries tieStore) \<and> reg_context (registry r) = ''copy_trading''"
    by (simp add: topParams_def)
  with ne have a: "\<exists>r \<in> set (findManyTop tieStore (topParams 3)).
      r \<in> set (registryEntries tieStore) \<and> reg_context (registry r) = ''copy_trading''"
    by fastforce
  from queryTopEntities_top [where st = tieStore and p = "topParams 3"
      and q = "topQuery 0" and n = 0]
  have b: "trustTopHandler tieStore (topQuery 0) = Http400"
    by (simp add: topQuery_def)
  from queryTopEntities_top [where st = tieStore and p = "topParams 3"
      and q = "topQuery 101" and n = 101]
  have c: "trustTopHandler tieStore (topQuery 101) = Http400"
    by (simp add: topQuery_def)
  from queryTopEntities_top [where st = tieStore and p = "topParams 3"
      and q = "topQuery 3" and N = 3 and c = "''copy_trading''"]
  have d: "\<exists>slugs rows.
      rows = queryTopEntities tieStore
               \<lparr>tp_context = ''copy_trading'', tp_limit = 3, tp_registrySlugs = slugs\<rparr> \<and>
      trustTopHandler tieStore (topQuery 3) = Http200 ''copy_trading'' 3 (length rows) rows"
    by (simp add: topQuery_def)
  from a b c d show ?thesis by blast
qed

text \<open>
  The claim as stated breaks ties by ascending entry identifier. With two entries of
  score 0.5 read in the order \<open>b\<close>, \<open>a\<close>, the result keeps \<open>b\<close> before \<open>a\<close>.
\<close>

theorem queryTopEntities_tie_counterexample:
  "map entry_id (findManyTop tieStore (topParams 3)) = [''c'', ''b'', ''a''] \<and>
   map score (findManyTop tieStore (topParams 3)) = [9/10, 1/2, 1/2] \<and>
   map t_registry (queryTopEntities tieStore (topParams 3))
     = [''top_pumpfun_traders'', ''top_whales'', ''top_dex_traders''] \<and>
   ''a'' < ''b''"
  by (simp add: queryTopEntities_def topRow_def findManyTop_def tieStore_def topParams_def
      exampleStore_def exampleEntry_def topWhere_def)

subsection \<open>The payment middleware and its ledger\<close>

lemmas payment_example_defs =
  liveConfig_def exampleRequest_def numericNetworkHeader_def noNetworkHeader_def
  mainnetHeader_def noNetworkPayload_def mainnetPayload_def exampleDecode_def
  acceptingEnv_def rejectingEnv_def

lemmas middleware_defs =
  x402Middleware_def noValidPayment_def parsePaymentHeader_def declaredNetwork_def
  networkOf_def includesDevnet_def verifyPayment_def settlePayment_def
  paymentRequirementsFor_def validateMockPayment_def present_def orElse_def

lemma x402Middleware_appends:
  "\<exists>rows. ledger (x402Middleware e price rid req l0) = l0 @ rows \<and> length rows \<le> 1"
  by (simp add: x402Middleware_def noValidPayment_def Let_def split: option.split)

lemma x402Middleware_one_row:
  assumes "outcome (x402Middleware e price rid req l0) \<noteq> TypeError"
  shows "\<exists>row. ledger (x402Middleware e price rid req l0) = l0 @ [row] \<and>
               requestId row = rid \<and> endpoint row = path req \<and> priceUsd row = price"
  using assms
  by (simp add: x402Middleware_def noValidPayment_def Let_def split: option.splits if_splits)

text \<open>
  Claim C3. Every request to a paid endpoint writes exactly one ledger row, never zero
  and never two, and no row is changed after its insertion. The lemmas above prove it for
  every run that does not raise: the ledger after the run is the ledger before it with
  one row appended. But a run can raise before any row is written. In live mode the
  header \<^verbatim>\<open>eyJuZXR3b3JrIjoxfQ==\<close> decodes to \<^verbatim>\<open>{"network":1}\<close>; \<^verbatim>\<open>network\<close> is then the
  number 1, \<^verbatim>\<open>network.includes\<close> is not a function, and the middleware ends with a
  \<^verbatim>\<open>TypeError\<close>, the ledger unchanged.
\<close>

theorem x402Middleware_numeric_network:
  "x402Middleware acceptingEnv price rid (exampleRequest (Some numericNetworkHeader)) l0 =
     \<lparr>ledger = l0, calls = [], outcome = TypeError\<rparr>"
  by (simp add: middleware_defs payment_example_defs Let_def)

text \<open>
  Claim C6. In live mode, a request whose \<^verbatim>\<open>X-PAYMENT\<close> header is absent, or does not
  decode to a parseable payload, is answered with the 402 challenge, and neither
  \<^verbatim>\<open>verify\<close> nor \<^verbatim>\<open>settle\<close> is called on the facilitator.
\<close>

theorem live_unparsable_denied:
  assumes "paymentsMode (cfg e) = Live"
    and "x_payment req = None \<or> (\<exists>h. x_payment req = Some h \<and> decode e h = None)"
  shows "calls (x402Middleware e price rid req l0) = [] \<and>
         outcome (x402Middleware e price rid req l0) = Status402 (challenge (cfg e) price req)"
  using assms
  by (auto simp: x402Middleware_def noValidPayment_def parsePaymentHeader_def Let_def)

theorem live_unparsable_denied_witness:
  "(paymentsMode (cfg acceptingEnv) = Live \<and>
    x_payment (exampleRequest (Some ''not base64 json'')) = Some ''not base64 json'' \<and>
    decode acceptingEnv ''not base64 json'' = None) \<and>
   calls (x402Middleware acceptingEnv (1/20) ''req-1''
            (exampleRequest (Some ''not base64 json'')) []) = [] \<and>
   outcome (x402Middleware acceptingEnv (1/20) ''req-1''
              (exampleRequest (Some ''not base64 json'')) [])
     = Status402 (challenge liveConfig (1/20) (exampleRequest (Some ''not base64 json'')))"
proof -
  have m: "paymentsMode (cfg acceptingEnv) = Live"
    by (simp add: acceptingEnv_def liveConfig_def)
  have h: "x_payment (exampleRequest (Some ''not base64 json'')) = Some ''not base64 json'' \<and>
      decode acceptingEnv ''not base64 json'' = None"
    by (simp add: payment_example_defs)
  then have "x_payment (exampleRequest (Some ''not base64 json'')) = None \<or>
      (\<exists>h. x_payment (exampleRequest (Some ''not base64 json'')) = Some h \<and>
           decode acceptingEnv h = None)"
    by blast
  from live_unparsable_denied [OF m this, of "1/20" "''req-1''" "[]"] m h
  show ?thesis by (simp add: acceptingEnv_def)
qed

text \<open>
  Claim C8, as the code has it. The row written for a denied request (a 402 answer) has
  status \<^verbatim>\<open>pending\<close>, whether or not the facilitator was asked; the row written for a
  granted request has status \<^verbatim>\<open>completed\<close>. The code never writes \<^verbatim>\<open>failed\<close>.
\<close>

theorem ledger_status:
  "(\<forall>c. outcome (x402Middleware e price rid req l0) = Status402 c \<longrightarrow>
        (\<exists>row. ledger (x402Middleware e price rid req l0) = l0 @ [row] \<and>
               status row = ''pending'')) \<and>
   (\<forall>pc hd. outcome (x402Middleware e price rid req l0) = Next pc hd \<longrightarrow>
        (\<exists>row. ledger (x402Middleware e price rid req l0) = l0 @ [row] \<and>
               status row = ''completed''))"
  by (simp add: x402Middleware_def noValidPayment_def Let_def split: option.split)

theorem ledger_status_witness:
  "(\<exists>c. outcome (x402Middleware rejectingEnv (1/20) ''req-1''
                  (exampleRequest (Some mainnetHeader)) []) = Status402 c) \<and>
   (\<exists>row. ledger (x402Middleware rejectingEnv (1/20) ''req-1''
                    (exampleRequest (Some mainnetHeader)) []) = [] @ [row] \<and>
          status row = ''pending'') \<and>
   (\<exists>pc hd. outcome (x402Middleware acceptingEnv (1/20) ''req-2''
                  (exampleRequest (Some mainnetHeader)) []) = Next pc hd) \<and>
   (\<exists>row. ledger (x402Middleware acceptingEnv (1/20) ''req-2''
                    (exampleRequest (Some mainnetHeader)) []) = [] @ [row] \<and>
          status row = ''completed'')"
proof -
  have a: "\<exists>c. outcome (x402Middleware rejectingEnv (1/20) ''req-1''
                  (exampleRequest (Some mainnetHeader)) []) = Status402 c"
    by (simp add: middleware_defs payment_example_defs Let_def)
  have b: "\<exists>pc hd. outcome (x402Middleware acceptingEnv (1/20) ''req-2''
                  (exampleRequest (Some mainnetHeader)) []) = Next pc hd"
    by (simp add: middleware_defs payment_example_defs Let_def)
  from a b
    ledger_status [of rejectingEnv "1/20" "''req-1''" "exampleRequest (Some mainnetHeader)" "[]"]
    ledger_status [of acceptingEnv "1/20" "''req-2''" "exampleRequest (Some mainnetHeader)" "[]"]
  show ?thesis by blast
qed

text \<open>
  The claim as stated gives \<^verbatim>\<open>failed\<close> to a payment attempt that the facilitator
  refuses. Here the payload reaches \<^verbatim>\<open>verify\<close>, which finds it invalid, and the row is
  \<^verbatim>\<open>pending\<close>.
\<close>

theorem ledger_status_counterexample:
  "calls (x402Middleware rejectingEnv (1/20) ''req-1'' (exampleRequest (Some mainnetHeader)) [])
     = [Verify mainnetPayload mainnetRequirements] \<and>
   isValid (verifyPayment rejectingEnv mainnetPayload mainnetRequirements) = False \<and>
   ledger (x402Middleware rejectingEnv (1/20) ''req-1'' (exampleRequest (Some mainnetHeader)) [])
     = [\<lparr>requestId = ''req-1'', endpoint = ''/trust/top'', priceUsd = 1/20,
         status = ''pending'', paymentRef = None\<rparr>] \<and>
   ''pending'' \<noteq> ''failed''"
  by (simp add: middleware_defs payment_example_defs mainnetRequirements_def Let_def
      usdToAtomicUnits_def)

subsection \<open>The requirement record sent to the facilitator\<close>

lemma requirement_network:
  assumes "paymentsMode (cfg e) = Live" and "x_payment req = Some h" and "h \<noteq> []"
    and "decode e h = Some payload" and "truthy payload"
    and "includesDevnet (declaredNetwork payload) = Some d"
  shows "\<exists>rest. calls (x402Middleware e price rid req l0) =
           Verify payload
             (paymentRequirementsFor e price req (declaredNetwork payload) d) # rest"
  using assms
  by (simp add: x402Middleware_def noValidPayment_def parsePaymentHeader_def Let_def)

text \<open>
  Claim C9. In live mode the requirement record built for verification takes the network
  that the payload declares, else the configured default network
  (\<^verbatim>\<open>config.payaiNetwork\<close>), and the USDC address of that network. The lemma above shows
  the record: its network is \<^verbatim>\<open>paymentPayload.network || "solana-devnet"\<close>. The fallback
  is the literal, not the configuration. With \<^verbatim>\<open>payaiNetwork = "solana"\<close> and a payload
  that declares no network, \<^verbatim>\<open>verify\<close> and \<^verbatim>\<open>settle\<close> receive the network
  \<^verbatim>\<open>solana-devnet\<close> and the devnet USDC address, while the 402 challenge of the same
  server announces \<^verbatim>\<open>solana\<close> and the mainnet address.
\<close>

theorem requirement_default_network:
  "payaiNetwork (cfg acceptingEnv) = ''solana'' \<and>
   networkOf noNetworkPayload = None \<and>
   map (\<lambda>c. case c of Verify p r \<Rightarrow> (pr_network r, pr_asset r)
                    | Settle p r \<Rightarrow> (pr_network r, pr_asset r))
     (calls (x402Middleware acceptingEnv price rid (exampleRequest (Some noNetworkHeader)) l0))
     = [(JStr ''solana-devnet'', USDC_SOLANA_DEVNET),
        (JStr ''solana-devnet'', USDC_SOLANA_DEVNET)] \<and>
   map (\<lambda>a. (a_network a, a_asset a))
     (accepts (challenge (cfg acceptingEnv) price (exampleRequest (Some noNetworkHeader))))
     = [(''solana'', USDC_SOLANA)]"
  by (simp add: middleware_defs payment_example_defs challenge_def Let_def)

end
